theory Spec2Isabelle
  imports Complex_Main
begin

section \<open>Closure launching on a CUDA device: dispatch and occupancy configuration\<close>

text \<open>
  A shallow embedding of \<^verbatim>\<open>thrust/detail/backend/cuda/detail/launch_closure.inl\<close>.
  The template parameter \<^verbatim>\<open>NullaryFunction\<close> is represented by its size in bytes
  (\<open>sz\<close>, the value of \<^verbatim>\<open>sizeof(NullaryFunction)\<close>) and by the type variable \<open>'c\<close> of
  its captured state. Integer template parameters \<^verbatim>\<open>Size1\<close>, \<^verbatim>\<open>Size2\<close>, \<^verbatim>\<open>Size3\<close> are
  represented by a descriptor of the C++ integer type together with a mathematical
  integer, with conversions, wrap-around and undefined behaviour written out.
\<close>

subsection \<open>C++ integer types and arithmetic\<close>

text \<open>An integer type is its width in bits and its signedness.\<close>

datatype ctype = CType (bits: nat) (is_signed: bool)

text \<open>The data model of the 64-bit CUDA host platforms: 32-bit \<^verbatim>\<open>int\<close>, 64-bit \<^verbatim>\<open>size_t\<close>.\<close>

definition c_int :: ctype where
  "c_int = CType 32 True"

definition c_uint :: ctype where
  "c_uint = CType 32 False"

definition size_t :: ctype where
  "size_t = CType 64 False"

text \<open>A value together with its static type.\<close>

type_synonym cval = "ctype \<times> int"

text \<open>Number of value bits (the sign bit does not count), and the range of a type.\<close>

definition value_bits :: "ctype \<Rightarrow> nat" where
  "value_bits T = (if is_signed T then bits T - 1 else bits T)"

definition type_max :: "ctype \<Rightarrow> int" where
  "type_max T = 2 ^ value_bits T - 1"

definition type_min :: "ctype \<Rightarrow> int" where
  "type_min T = (if is_signed T then - (2 ^ value_bits T) else 0)"

definition in_range :: "ctype \<Rightarrow> int \<Rightarrow> bool" where
  "in_range T v = (type_min T \<le> v \<and> v \<le> type_max T)"

text \<open>
  Conversion to an integer type: modulo \<open>2 ^ bits\<close> for an unsigned target; for a signed
  target the two's complement value with the same low bits (what nvcc and its host
  compilers do).
\<close>

definition c_convert :: "ctype \<Rightarrow> int \<Rightarrow> int" where
  "c_convert T v =
     (if is_signed T
      then (v + 2 ^ value_bits T) mod (2 * 2 ^ value_bits T) - 2 ^ value_bits T
      else v mod 2 ^ bits T)"

text \<open>Integer promotion: every type narrower than \<^verbatim>\<open>int\<close> becomes \<^verbatim>\<open>int\<close>.\<close>

definition promote :: "ctype \<Rightarrow> ctype" where
  "promote T = (if bits T < bits c_int then c_int else T)"

text \<open>
  The usual arithmetic conversions on two integer operands, by width: with equal
  signedness the wider type; otherwise the unsigned type if it is at least as wide as
  the signed one, else the signed type (which then holds every value of the unsigned).
\<close>

definition usual_arithmetic_conversions :: "ctype \<Rightarrow> ctype \<Rightarrow> ctype" where
  "usual_arithmetic_conversions A B =
     (let a = promote A; b = promote B in
      if is_signed a = is_signed b then (if bits b \<le> bits a then a else b)
      else if is_signed a then (if bits a \<le> bits b then b else a)
      else (if bits b \<le> bits a then a else b))"

text \<open>What evaluating an arithmetic expression can run into.\<close>

datatype undefined_behaviour = DivisionByZero | SignedOverflow

text \<open>
  The result of an operation whose mathematical value is \<open>v\<close>, in type \<open>T\<close>: unsigned
  arithmetic wraps around, signed arithmetic that leaves the range is undefined.
\<close>

definition c_result :: "ctype \<Rightarrow> int \<Rightarrow> undefined_behaviour + cval" where
  "c_result T v =
     (if is_signed T then (if in_range T v then Inr (T, v) else Inl SignedOverflow)
      else Inr (T, v mod 2 ^ bits T))"

definition c_add :: "cval \<Rightarrow> cval \<Rightarrow> undefined_behaviour + cval" where
  "c_add a b =
     (let T = usual_arithmetic_conversions (fst a) (fst b)
      in c_result T (c_convert T (snd a) + c_convert T (snd b)))"

definition c_sub :: "cval \<Rightarrow> cval \<Rightarrow> undefined_behaviour + cval" where
  "c_sub a b =
     (let T = usual_arithmetic_conversions (fst a) (fst b)
      in c_result T (c_convert T (snd a) - c_convert T (snd b)))"

text \<open>C++ division truncates towards zero.\<close>

definition trunc_div :: "int \<Rightarrow> int \<Rightarrow> int" where
  "trunc_div a b =
     (if 0 \<le> a
      then (if 0 \<le> b then a div b else - (a div (- b)))
      else (if 0 \<le> b then - ((- a) div b) else (- a) div (- b)))"

definition c_div :: "cval \<Rightarrow> cval \<Rightarrow> undefined_behaviour + cval" where
  "c_div a b =
     (let T = usual_arithmetic_conversions (fst a) (fst b)
      in if c_convert T (snd b) = 0 then Inl DivisionByZero
         else c_result T (trunc_div (c_convert T (snd a)) (c_convert T (snd b))))"

text \<open>
  Modelled from the spec: \<^verbatim>\<open>thrust::detail::larger_type\<close> (thrust/detail/type_traits.h is
  not part of the sources at hand). It is ``the larger of Size1 and Size2'': the second
  type when that is strictly wider, the first otherwise.
\<close>

definition larger_type :: "ctype \<Rightarrow> ctype \<Rightarrow> ctype" where
  "larger_type T1 T2 = (if bits T1 < bits T2 then T2 else T1)"

text \<open>
  Modelled from the spec: \<^verbatim>\<open>thrust::min<T>\<close> (thrust/detail/minmax.h is not part of the
  sources at hand): both arguments are converted to \<open>T\<close>, the smaller one is returned.
\<close>

definition thrust_min :: "ctype \<Rightarrow> int \<Rightarrow> int \<Rightarrow> int" where
  "thrust_min T lhs rhs =
     (if c_convert T rhs < c_convert T lhs then c_convert T rhs else c_convert T lhs)"

subsection \<open>Dispatch by closure size\<close>

text \<open>The two device entry points (\<^verbatim>\<open>__global__\<close> functions) of the file.\<close>

datatype entry_point = Launch_closure_by_value | Launch_closure_by_pointer

text \<open>
  The default template argument \<^verbatim>\<open>bool launch_by_value = sizeof(NullaryFunction) <= 256\<close>
  of \<^verbatim>\<open>closure_launcher_base\<close>.
\<close>

definition launch_by_value :: "nat \<Rightarrow> bool" where
  "launch_by_value sz = (sz \<le> 256)"

text \<open>
  \<^verbatim>\<open>closure_launcher_base<NullaryFunction>::get_launch_function\<close>: the primary template
  returns the by-value kernel, the specialisation for \<^verbatim>\<open>false\<close> the by-pointer kernel.
\<close>

definition get_launch_function :: "nat \<Rightarrow> entry_point" where
  "get_launch_function sz =
     (if launch_by_value sz then Launch_closure_by_value else Launch_closure_by_pointer)"

subsection \<open>Device limits, kernel footprint and the occupancy calculator\<close>

text \<open>
  The device properties and function attributes that the occupancy computation reads
  (\<^verbatim>\<open>cudaDeviceProp\<close>, \<^verbatim>\<open>cudaFuncAttributes\<close>): the fields of section 3 of the spec,
  with the register file and the warp width that section 4.2 uses.
\<close>

record DeviceLimits =
  max_threads_per_block :: nat
  max_blocks_per_mp :: nat
  max_threads_per_mp :: nat
  shared_mem_per_mp :: nat
  registers_per_mp :: nat
  mp_count :: nat
  warp_size :: nat

record KernelFootprint =
  registers_per_thread :: nat
  static_shared_mem :: nat

text \<open>
  Modelled from the spec: one resource constraint of section 4.2, the largest number of
  blocks, at most \<open>cap\<close>, whose consumption of \<open>per\<close> each stays within
  \<open>limit\<close> (thrust/detail/backend/cuda/arch.h is not part of the sources at hand).
\<close>

definition quota :: "nat \<Rightarrow> nat \<Rightarrow> nat \<Rightarrow> nat" where
  "quota cap limit per = (if per = 0 then cap else min cap (limit div per))"

text \<open>
  Modelled from the spec: the number of blocks of \<open>block_size\<close> threads that can reside
  concurrently on one multiprocessor (section 4.2; the function of
  thrust/detail/backend/cuda/arch.h is not part of the sources at hand). The registers
  of all resident threads fit the register file, the static and dynamic shared memory of
  all resident blocks fit the shared memory, the resident threads and blocks respect
  the device's maxima.
\<close>

definition resident_blocks_per_mp :: "DeviceLimits \<Rightarrow> KernelFootprint \<Rightarrow> nat \<Rightarrow> nat \<Rightarrow> nat" where
  "resident_blocks_per_mp dev fp block_size dynamic_smem_bytes_per_block =
     quota
       (quota
          (quota (max_blocks_per_mp dev) (max_threads_per_mp dev) block_size)
          (registers_per_mp dev) (registers_per_thread fp * block_size))
       (shared_mem_per_mp dev) (static_shared_mem fp + dynamic_smem_bytes_per_block)"

text \<open>
  Modelled from the spec: \<^verbatim>\<open>arch::max_active_blocks\<close> (section 4.2; not part of the
  sources at hand): blocks per multiprocessor times the number of multiprocessors,
  returned as a \<^verbatim>\<open>size_t\<close>.
\<close>

definition max_active_blocks :: "DeviceLimits \<Rightarrow> KernelFootprint \<Rightarrow> nat \<Rightarrow> nat \<Rightarrow> int" where
  "max_active_blocks dev fp block_size dynamic_smem_bytes_per_block =
     c_convert size_t
       (int (resident_blocks_per_mp dev fp block_size dynamic_smem_bytes_per_block * mp_count dev))"

text \<open>
  Modelled from the spec: the candidate block sizes of section 4.2, the multiples of the
  warp width up to the device's maximal number of threads per block.
\<close>

definition candidate_block_sizes :: "DeviceLimits \<Rightarrow> nat list" where
  "candidate_block_sizes dev =
     map (\<lambda>k. k * warp_size dev) [1 ..< Suc (max_threads_per_block dev div warp_size dev)]"

text \<open>
  Modelled from the spec: the quantity that section 4.2 maximises, resident blocks per
  multiprocessor times block size; the dynamic shared memory is given per thread.
\<close>

definition occupied_threads :: "DeviceLimits \<Rightarrow> KernelFootprint \<Rightarrow> nat \<Rightarrow> nat \<Rightarrow> nat" where
  "occupied_threads dev fp dynamic_smem_bytes_per_thread block_size =
     resident_blocks_per_mp dev fp block_size (dynamic_smem_bytes_per_thread * block_size)
       * block_size"

text \<open>
  Modelled from the spec: one step of the choice of section 4.2. A candidate replaces
  the best block size so far when it occupies at least as many threads, so that ties
  go to the larger block size.
\<close>

definition better_block_size :: "DeviceLimits \<Rightarrow> KernelFootprint \<Rightarrow> nat \<Rightarrow> nat \<Rightarrow> nat \<Rightarrow> nat" where
  "better_block_size dev fp smem candidate best =
     (if occupied_threads dev fp smem best \<le> occupied_threads dev fp smem candidate
      then candidate else best)"

text \<open>
  Modelled from the spec: \<^verbatim>\<open>arch::max_blocksize_with_highest_occupancy\<close> (section 4.2; not
  part of the sources at hand). The candidates are tried in increasing order, starting
  from no block size at all; the result is returned as a \<^verbatim>\<open>size_t\<close>.
\<close>

definition max_blocksize_with_highest_occupancy :: "DeviceLimits \<Rightarrow> KernelFootprint \<Rightarrow> nat \<Rightarrow> int" where
  "max_blocksize_with_highest_occupancy dev fp dynamic_smem_bytes_per_thread =
     c_convert size_t
       (int (fold (better_block_size dev fp dynamic_smem_bytes_per_thread)
               (candidate_block_sizes dev) 0))"

subsection \<open>The device: memory, execution queue, diagnostics\<close>

type_synonym addr = nat

text \<open>A device thread within a launch: block index and thread index.\<close>

type_synonym thread = "nat \<times> nat"

text \<open>The argument a kernel was launched with: the closure itself or a device pointer to it.\<close>

datatype 'c kernel_arg = ByValue 'c | ByPointer addr

text \<open>One execution of the launch statement \<^verbatim>\<open>kernel<<<grid, block, smem>>>(arg)\<close>.\<close>

datatype 'c submission =
  Submission (kernel_arg: "'c kernel_arg") (grid_dim: nat) (block_dim: nat) (shared_mem: nat)

datatype device_error = InvalidLaunchConfiguration | DeviceExecutionFault

text \<open>
  The errors a launch can end with. \<open>SynchronizeError\<close> carries the label given to
  the diagnostic hook. \<open>Undefined\<close> stands for a launch whose configuration could not
  be computed because the arithmetic has no defined result.
\<close>

datatype error =
  OutOfDeviceMemory
| SynchronizeError string device_error
| Undefined undefined_behaviour

text \<open>The effects on the device, in the order in which they happen.\<close>

datatype 'c event =
  EvAlloc addr nat
| EvCopy addr 'c
| EvLaunch "'c submission"
| EvComplete "'c submission"
| EvFault "'c submission"
| EvFree addr

text \<open>
  The state of the device and its runtime. \<open>arch_device_properties\<close> and
  \<open>arch_function_attributes\<close> are what the query services of
  thrust/detail/backend/cuda/arch.h report. \<open>closure_call\<close> is the compiled
  \<^verbatim>\<open>operator()\<close> of the closure type, run by one thread on the data the kernels work
  on (\<open>world\<close>); it yields \<open>None\<close> when the thread faults. \<open>heap\<close> holds the
  allocated buffers with their size and, once written, the closure stored there.
\<close>

record ('c, 'w) device =
  arch_device_properties :: DeviceLimits
  arch_function_attributes :: "entry_point \<Rightarrow> KernelFootprint"
  closure_call :: "'c \<Rightarrow> thread \<Rightarrow> 'w \<Rightarrow> 'w option"
  sync_enabled :: bool
  free_bytes :: nat
  next_addr :: addr
  heap :: "addr \<rightharpoonup> nat \<times> 'c option"
  pending :: "'c submission list"
  world :: 'w
  latent :: "device_error option"
  trace :: "'c event list"

text \<open>
  Modelled from the spec: \<^verbatim>\<open>arch::max_blocksize_with_highest_occupancy\<close> as the launcher
  calls it, with the kernel's entry point (thrust/detail/backend/cuda/arch.h is not part
  of the sources at hand). It looks up the device properties and the attributes of that
  entry point (the ResourceProbe of section 2).
\<close>

definition arch_max_blocksize_with_highest_occupancy ::
  "('c, 'w) device \<Rightarrow> entry_point \<Rightarrow> nat \<Rightarrow> int" where
  "arch_max_blocksize_with_highest_occupancy s entry dynamic_smem_bytes_per_thread =
     max_blocksize_with_highest_occupancy (arch_device_properties s)
       (arch_function_attributes s entry) dynamic_smem_bytes_per_thread"

text \<open>
  Modelled from the spec: \<^verbatim>\<open>arch::max_active_blocks\<close> as the launcher calls it, with the
  kernel's entry point (not part of the sources at hand); the block size is a
  \<^verbatim>\<open>size_t\<close> parameter.
\<close>

definition arch_max_active_blocks ::
  "('c, 'w) device \<Rightarrow> entry_point \<Rightarrow> int \<Rightarrow> nat \<Rightarrow> int" where
  "arch_max_active_blocks s entry block_size dynamic_smem_bytes_per_block =
     max_active_blocks (arch_device_properties s) (arch_function_attributes s entry)
       (nat (c_convert size_t block_size)) dynamic_smem_bytes_per_block"

subsection \<open>The device entry points\<close>

text \<open>
  \<^verbatim>\<open>launch_closure_by_value(NullaryFunction f)\<close>: the body of one thread, \<^verbatim>\<open>f();\<close>.
\<close>

definition launch_closure_by_value ::
  "('c \<Rightarrow> thread \<Rightarrow> 'w \<Rightarrow> 'w option) \<Rightarrow> 'c \<Rightarrow> thread \<Rightarrow> 'w \<Rightarrow> 'w option" where
  "launch_closure_by_value call f t w = call f t w"

text \<open>
  \<^verbatim>\<open>launch_closure_by_pointer(const NullaryFunction *f)\<close>: the thread copies the pointee
  to registers, \<^verbatim>\<open>NullaryFunction f_reg = *f;\<close>, and calls the copy, \<^verbatim>\<open>f_reg();\<close>. Reading
  through a pointer to no closure is a fault.
\<close>

definition launch_closure_by_pointer ::
  "('c \<Rightarrow> thread \<Rightarrow> 'w \<Rightarrow> 'w option) \<Rightarrow> (addr \<rightharpoonup> nat \<times> 'c option) \<Rightarrow> addr
     \<Rightarrow> thread \<Rightarrow> 'w \<Rightarrow> 'w option" where
  "launch_closure_by_pointer call mem f t w =
     (case mem f of
        None \<Rightarrow> None
      | Some (n, None) \<Rightarrow> None
      | Some (n, Some f_reg) \<Rightarrow> call f_reg t w)"

text \<open>
  The threads of a launch run the entry point one after the other in the order of a
  schedule; a fault of one thread ends the kernel.
\<close>

fun run_threads :: "(thread \<Rightarrow> 'w \<Rightarrow> 'w option) \<Rightarrow> thread list \<Rightarrow> 'w \<Rightarrow> 'w option" where
  "run_threads body [] w = Some w"
| "run_threads body (t # ts) w =
     (case body t w of None \<Rightarrow> None | Some w' \<Rightarrow> run_threads body ts w')"

definition grid_threads :: "nat \<Rightarrow> nat \<Rightarrow> thread list" where
  "grid_threads num_blocks block_size =
     concat (map (\<lambda>b. map (\<lambda>t. (b, t)) [0 ..< block_size]) [0 ..< num_blocks])"

definition kernel_body :: "('c, 'w) device \<Rightarrow> 'c kernel_arg \<Rightarrow> thread \<Rightarrow> 'w \<Rightarrow> 'w option" where
  "kernel_body s a =
     (case a of
        ByValue f \<Rightarrow> launch_closure_by_value (closure_call s) f
      | ByPointer p \<Rightarrow> launch_closure_by_pointer (closure_call s) (heap s) p)"

text \<open>The device runs one submitted kernel to its end.\<close>

definition execute :: "'c submission \<Rightarrow> ('c, 'w) device \<Rightarrow> ('c, 'w) device" where
  "execute k s =
     (case run_threads (kernel_body s (kernel_arg k))
             (grid_threads (grid_dim k) (block_dim k)) (world s) of
        None \<Rightarrow> s\<lparr>latent := Some DeviceExecutionFault, trace := trace s @ [EvFault k]\<rparr>
      | Some w \<Rightarrow> s\<lparr>world := w, trace := trace s @ [EvComplete k]\<rparr>)"

text \<open>The event \<open>e\<close> reports that the kernel \<open>k\<close> has come to its end.\<close>

definition finished :: "'c event \<Rightarrow> 'c submission \<Rightarrow> bool" where
  "finished e k = (e = EvComplete k \<or> e = EvFault k)"

text \<open>The queue drains: every pending kernel runs, in submission order.\<close>

definition drain :: "('c, 'w) device \<Rightarrow> ('c, 'w) device" where
  "drain s = (fold execute (pending s) s)\<lparr>pending := []\<rparr>"

text \<open>
  Modelled from the spec: the geometry the device accepts, ``block/grid dimensions
  [within] device limits'' (section 7; the device runtime is not part of the sources at
  hand).
\<close>

definition valid_launch_configuration :: "DeviceLimits \<Rightarrow> 'c submission \<Rightarrow> bool" where
  "valid_launch_configuration dev k =
     (0 < grid_dim k \<and> 0 < block_dim k \<and> block_dim k \<le> max_threads_per_block dev)"

text \<open>
  Modelled from the spec: the launch statement, ``submit(entry point, configuration,
  argument) to the device queue'' (sections 5, 7 and 9; the device runtime is not part
  of the sources at hand). The call returns at once. A geometry outside the device
  limits is not enqueued and leaves \<open>InvalidLaunchConfiguration\<close> as a latent error.
\<close>

definition cuda_launch :: "'c submission \<Rightarrow> ('c, 'w) device \<Rightarrow> ('c, 'w) device" where
  "cuda_launch k s =
     (if valid_launch_configuration (arch_device_properties s) k
      then s\<lparr>pending := pending s @ [k], trace := trace s @ [EvLaunch k]\<rparr>
      else s\<lparr>latent := Some InvalidLaunchConfiguration, trace := trace s @ [EvLaunch k]\<rparr>)"

text \<open>
  Modelled from the spec: \<^verbatim>\<open>cuda::malloc\<close>, the device memory service
  ``allocate(bytes) \<rightarrow> handle | OutOfDeviceMemory'' (section 6;
  thrust/detail/backend/cuda/malloc.h is not part of the sources at hand). The error is
  raised as an exception and leaves the device as it was.
\<close>

definition malloc :: "nat \<Rightarrow> ('c, 'w) device \<Rightarrow> (error + addr) \<times> ('c, 'w) device" where
  "malloc n s =
     (if n \<le> free_bytes s
      then (Inr (next_addr s),
            s\<lparr>free_bytes := free_bytes s - n,
              next_addr := Suc (next_addr s),
              heap := (heap s)(next_addr s \<mapsto> (n, None)),
              trace := trace s @ [EvAlloc (next_addr s) n]\<rparr>)
      else (Inl OutOfDeviceMemory, s))"

text \<open>
  Modelled from the spec: the assignment \<^verbatim>\<open>*f_ptr = f\<close> through a \<^verbatim>\<open>device_ptr\<close>
  (thrust/device_ptr.h is not part of the sources at hand), ``the closure is copied once
  into a TransientDeviceBuffer'' (section 4.1): one copy from the host into the
  buffer. A write through a pointer to no buffer is an error of the device.
\<close>

definition device_assign :: "addr \<Rightarrow> 'c \<Rightarrow> ('c, 'w) device \<Rightarrow> ('c, 'w) device" where
  "device_assign p f s =
     (case heap s p of
        None \<Rightarrow> s\<lparr>latent := Some DeviceExecutionFault\<rparr>
      | Some (n, old) \<Rightarrow>
          s\<lparr>heap := (heap s)(p \<mapsto> (n, Some f)), trace := trace s @ [EvCopy p f]\<rparr>)"

text \<open>
  Modelled from the spec: \<^verbatim>\<open>synchronize_if_enabled\<close>, the diagnostic hook
  ``maybe_wait_and_check(label)'' (section 6; thrust/detail/backend/cuda/synchronize.h
  is not part of the sources at hand): a no-op unless the debug flag is set; when
  active it blocks until the queue drains and raises on any latent device error,
  tagged with the label.
\<close>

definition synchronize_if_enabled ::
  "string \<Rightarrow> ('c, 'w) device \<Rightarrow> (error + unit) \<times> ('c, 'w) device" where
  "synchronize_if_enabled label s =
     (if sync_enabled s
      then (let s' = drain s in
            case latent s' of
              None \<Rightarrow> (Inr (), s')
            | Some e \<Rightarrow> (Inl (SynchronizeError label e), s'\<lparr>latent := None\<rparr>))
      else (Inr (), s))"

text \<open>
  Modelled from the spec: \<^verbatim>\<open>cuda::free\<close>, the device memory service ``free(handle)''
  (sections 5 and 6; thrust/detail/backend/cuda/free.h is not part of the sources at
  hand). The runtime orders the release after the completion of the kernels already
  in the queue.
\<close>

definition free :: "addr \<Rightarrow> ('c, 'w) device \<Rightarrow> ('c, 'w) device" where
  "free p s =
     (let s' = drain s in
      case heap s' p of
        None \<Rightarrow> s'\<lparr>trace := trace s' @ [EvFree p]\<rparr>
      | Some (n, old) \<Rightarrow>
          s'\<lparr>free_bytes := free_bytes s' + n,
             heap := (heap s')(p := None),
             trace := trace s' @ [EvFree p]\<rparr>)"

subsection \<open>The launcher: \<^verbatim>\<open>closure_launcher_base\<close>\<close>

text \<open>
  The primary template (by value). The three geometry arguments are cast to
  \<^verbatim>\<open>unsigned int\<close>; the cast depends on the value only, so the arguments are given by
  their values.
\<close>

definition closure_launcher_base_launch_by_value ::
  "'c \<Rightarrow> int \<Rightarrow> int \<Rightarrow> int \<Rightarrow> ('c, 'w) device \<Rightarrow> (error + unit) \<times> ('c, 'w) device" where
  "closure_launcher_base_launch_by_value f num_blocks block_size smem_size s =
     synchronize_if_enabled ''launch_closure_by_value''
       (cuda_launch
          (Submission (ByValue f)
             (nat (c_convert c_uint num_blocks))
             (nat (c_convert c_uint block_size))
             (nat (c_convert c_uint smem_size))) s)"

text \<open>
  The specialisation for \<^verbatim>\<open>launch_by_value = false\<close> (by pointer): allocate, copy, launch,
  synchronise if enabled, free. An exception leaves the function at the statement that
  raised it.
\<close>

definition closure_launcher_base_launch_by_pointer ::
  "nat \<Rightarrow> 'c \<Rightarrow> int \<Rightarrow> int \<Rightarrow> int \<Rightarrow> ('c, 'w) device \<Rightarrow> (error + unit) \<times> ('c, 'w) device" where
  "closure_launcher_base_launch_by_pointer sz f num_blocks block_size smem_size s =
     (case malloc sz s of
        (Inl e, s1) \<Rightarrow> (Inl e, s1)
      | (Inr temp_ptr, s1) \<Rightarrow>
          (let f_ptr = temp_ptr;
               s2 = device_assign f_ptr f s1;
               s3 = cuda_launch
                      (Submission (ByPointer f_ptr)
                         (nat (c_convert c_uint num_blocks))
                         (nat (c_convert c_uint block_size))
                         (nat (c_convert c_uint smem_size))) s2
           in case synchronize_if_enabled ''launch_closure_by_pointer'' s3 of
                (Inl e, s4) \<Rightarrow> (Inl e, s4)
              | (Inr u, s4) \<Rightarrow> (Inr (), free f_ptr s4)))"

text \<open>The compiler picks the specialisation from the closure size.\<close>

definition closure_launcher_base_launch ::
  "nat \<Rightarrow> 'c \<Rightarrow> int \<Rightarrow> int \<Rightarrow> int \<Rightarrow> ('c, 'w) device \<Rightarrow> (error + unit) \<times> ('c, 'w) device" where
  "closure_launcher_base_launch sz f num_blocks block_size smem_size s =
     (if launch_by_value sz
      then closure_launcher_base_launch_by_value f num_blocks block_size smem_size s
      else closure_launcher_base_launch_by_pointer sz f num_blocks block_size smem_size s)"

subsection \<open>The launcher: \<^verbatim>\<open>closure_launcher\<close>\<close>

text \<open>\<^verbatim>\<open>device_properties()\<close> and \<^verbatim>\<open>function_attributes()\<close> forward to the query services.\<close>

definition device_properties :: "('c, 'w) device \<Rightarrow> DeviceLimits" where
  "device_properties s = arch_device_properties s"

definition function_attributes :: "nat \<Rightarrow> ('c, 'w) device \<Rightarrow> KernelFootprint" where
  "function_attributes sz s = arch_function_attributes s (get_launch_function sz)"

definition closure_launcher_block_size_with_maximal_occupancy ::
  "nat \<Rightarrow> ('c, 'w) device \<Rightarrow> nat \<Rightarrow> int" where
  "closure_launcher_block_size_with_maximal_occupancy sz s dynamic_smem_bytes_per_thread =
     arch_max_blocksize_with_highest_occupancy s (get_launch_function sz)
       dynamic_smem_bytes_per_thread"

text \<open>The expression \<^verbatim>\<open>( n + (block_size - 1) ) / block_size\<close>; the literal is an \<^verbatim>\<open>int\<close>.\<close>

definition numerator_type :: "ctype \<Rightarrow> ctype \<Rightarrow> ctype" where
  "numerator_type Size1 Size2 =
     usual_arithmetic_conversions Size1 (usual_arithmetic_conversions Size2 c_int)"

definition rounded_up_quotient :: "cval \<Rightarrow> cval \<Rightarrow> undefined_behaviour + cval" where
  "rounded_up_quotient n block_size =
     (case c_sub block_size (c_int, 1) of
        Inl e \<Rightarrow> Inl e
      | Inr d \<Rightarrow>
          (case c_add n d of
             Inl e \<Rightarrow> Inl e
           | Inr m \<Rightarrow> c_div m block_size))"

text \<open>
  \<^verbatim>\<open>num_blocks_with_maximal_occupancy(n, block_size, dynamic_smem_bytes_per_block)\<close>.
  The result is the value of the returned \<^verbatim>\<open>size_t\<close>.
\<close>

definition closure_launcher_num_blocks_with_maximal_occupancy ::
  "nat \<Rightarrow> ('c, 'w) device \<Rightarrow> cval \<Rightarrow> cval \<Rightarrow> nat \<Rightarrow> undefined_behaviour + int" where
  "closure_launcher_num_blocks_with_maximal_occupancy sz s n block_size
       dynamic_smem_bytes_per_block =
     (let max_blocks = arch_max_active_blocks s (get_launch_function sz) (snd block_size)
                         dynamic_smem_bytes_per_block;
          large_integer = larger_type (fst n) (fst block_size)
      in case rounded_up_quotient n block_size of
           Inl e \<Rightarrow> Inl e
         | Inr q \<Rightarrow> Inr (c_convert size_t (thrust_min large_integer max_blocks (snd q))))"

text \<open>\<^verbatim>\<open>configuration_with_maximal_occupancy(n)\<close>: the pair (num_blocks, block_size).\<close>

definition closure_launcher_configuration_with_maximal_occupancy ::
  "nat \<Rightarrow> ('c, 'w) device \<Rightarrow> cval \<Rightarrow> undefined_behaviour + int \<times> int" where
  "closure_launcher_configuration_with_maximal_occupancy sz s n =
     (let block_size = closure_launcher_block_size_with_maximal_occupancy sz s 0
      in case closure_launcher_num_blocks_with_maximal_occupancy sz s n (size_t, block_size) 0 of
           Inl e \<Rightarrow> Inl e
         | Inr num_blocks \<Rightarrow> Inr (num_blocks, block_size))"

text \<open>\<^verbatim>\<open>closure_launcher::launch(f, n)\<close>.\<close>

definition closure_launcher_launch_n ::
  "nat \<Rightarrow> 'c \<Rightarrow> cval \<Rightarrow> ('c, 'w) device \<Rightarrow> (error + unit) \<times> ('c, 'w) device" where
  "closure_launcher_launch_n sz f n s =
     (case closure_launcher_configuration_with_maximal_occupancy sz s n of
        Inl e \<Rightarrow> (Inl (Undefined e), s)
      | Inr config \<Rightarrow> closure_launcher_base_launch sz f (fst config) (snd config) 0 s)"

text \<open>\<^verbatim>\<open>closure_launcher::launch(f, num_blocks, block_size, smem_size)\<close>.\<close>

definition closure_launcher_launch ::
  "nat \<Rightarrow> 'c \<Rightarrow> int \<Rightarrow> int \<Rightarrow> int \<Rightarrow> ('c, 'w) device \<Rightarrow> (error + unit) \<times> ('c, 'w) device" where
  "closure_launcher_launch sz f num_blocks block_size smem_size s =
     closure_launcher_base_launch sz f num_blocks block_size smem_size s"

subsection \<open>The entry points of the file\<close>

definition block_size_with_maximal_occupancy :: "nat \<Rightarrow> ('c, 'w) device \<Rightarrow> nat \<Rightarrow> int" where
  "block_size_with_maximal_occupancy sz s dynamic_smem_bytes_per_thread =
     closure_launcher_block_size_with_maximal_occupancy sz s dynamic_smem_bytes_per_thread"

definition num_blocks_with_maximal_occupancy ::
  "nat \<Rightarrow> ('c, 'w) device \<Rightarrow> cval \<Rightarrow> cval \<Rightarrow> nat \<Rightarrow> undefined_behaviour + int" where
  "num_blocks_with_maximal_occupancy sz s n block_size dynamic_smem_bytes_per_block =
     closure_launcher_num_blocks_with_maximal_occupancy sz s n block_size
       dynamic_smem_bytes_per_block"

text \<open>\<^verbatim>\<open>launch_closure(f, n)\<close>.\<close>

definition launch_closure_n ::
  "nat \<Rightarrow> 'c \<Rightarrow> cval \<Rightarrow> ('c, 'w) device \<Rightarrow> (error + unit) \<times> ('c, 'w) device" where
  "launch_closure_n sz f n s = closure_launcher_launch_n sz f n s"

text \<open>\<^verbatim>\<open>launch_closure(f, num_blocks, block_size, smem_size)\<close>.\<close>

definition launch_closure ::
  "nat \<Rightarrow> 'c \<Rightarrow> int \<Rightarrow> int \<Rightarrow> int \<Rightarrow> ('c, 'w) device \<Rightarrow> (error + unit) \<times> ('c, 'w) device" where
  "launch_closure sz f num_blocks block_size smem_size s =
     closure_launcher_launch sz f num_blocks block_size smem_size s"

text \<open>\<^verbatim>\<open>launch_closure(f, num_blocks, block_size)\<close>: no dynamic shared memory.\<close>

definition launch_closure_3 ::
  "nat \<Rightarrow> 'c \<Rightarrow> int \<Rightarrow> int \<Rightarrow> ('c, 'w) device \<Rightarrow> (error + unit) \<times> ('c, 'w) device" where
  "launch_closure_3 sz f num_blocks block_size s = launch_closure sz f num_blocks block_size 0 s"

subsection \<open>A device and a closure type to run the definitions on\<close>

text \<open>
  The device of the scenario of section 8 of the spec: at most 1024 threads per block,
  32 resident blocks and 2048 resident threads per multiprocessor, 8 multiprocessors,
  warps of 32 threads; the kernels use 32 registers per thread and no shared memory.
\<close>

definition example_limits :: DeviceLimits where
  "example_limits =
     \<lparr>max_threads_per_block = 1024, max_blocks_per_mp = 32, max_threads_per_mp = 2048,
      shared_mem_per_mp = 49152, registers_per_mp = 65536, mp_count = 8, warp_size = 32\<rparr>"

definition example_footprint :: KernelFootprint where
  "example_footprint = \<lparr>registers_per_thread = 32, static_shared_mem = 0\<rparr>"

text \<open>
  A closure captures a number; run by a thread it logs that number, and it faults when
  the number is 0.
\<close>

definition example_call :: "nat \<Rightarrow> thread \<Rightarrow> nat list \<Rightarrow> nat list option" where
  "example_call f t w = (if f = 0 then None else Some (f # w))"

text \<open>An idle device with 1000 bytes of free memory; the diagnostic hook is a parameter.\<close>

definition example_device :: "bool \<Rightarrow> (nat, nat list) device" where
  "example_device debug =
     \<lparr>arch_device_properties = example_limits,
      arch_function_attributes = (\<lambda>entry. example_footprint),
      closure_call = example_call,
      sync_enabled = debug,
      free_bytes = 1000,
      next_addr = 1,
      heap = Map.empty,
      pending = [],
      world = [],
      latent = None,
      trace = []\<rparr>"

text \<open>
  The same device with kernels that use 64 registers per thread, so that only one block
  of 1024 threads can reside on a multiprocessor.
\<close>

definition example_fat_footprint :: KernelFootprint where
  "example_fat_footprint = \<lparr>registers_per_thread = 64, static_shared_mem = 0\<rparr>"

definition example_fat_device :: "(nat, nat list) device" where
  "example_fat_device =
     (example_device False)\<lparr>arch_function_attributes := \<lambda>entry. example_fat_footprint\<rparr>"

section \<open>Properties of the integer model\<close>

lemma value_bits_promote: "value_bits T \<le> value_bits (promote T)"
  by (auto simp: value_bits_def promote_def c_int_def)


lemma value_bits_usual_promote:
  "value_bits (promote A) \<le> value_bits (usual_arithmetic_conversions A B)"
  "value_bits (promote B) \<le> value_bits (usual_arithmetic_conversions A B)"
  by (auto simp: usual_arithmetic_conversions_def Let_def value_bits_def)

lemma value_bits_usual:
  "value_bits A \<le> value_bits (usual_arithmetic_conversions A B)"
  "value_bits B \<le> value_bits (usual_arithmetic_conversions A B)"
  using value_bits_promote value_bits_usual_promote order_trans by blast+


lemma type_max_mono: "value_bits A \<le> value_bits B \<Longrightarrow> type_max A \<le> type_max B"
proof -
  assume "value_bits A \<le> value_bits B"
  then have "(2::int) ^ value_bits A \<le> 2 ^ value_bits B"
    by (intro power_increasing) auto
  then show ?thesis unfolding type_max_def by linarith
qed

lemma type_max_usual:
  "type_max A \<le> type_max (usual_arithmetic_conversions A B)"
  "type_max B \<le> type_max (usual_arithmetic_conversions A B)"
  by (simp_all add: type_max_mono value_bits_usual)

lemma value_bits_le_bits: "value_bits T \<le> bits T"
  by (simp add: value_bits_def)

lemma c_convert_id: "0 \<le> v \<Longrightarrow> v \<le> type_max T \<Longrightarrow> c_convert T v = v"
proof -
  assume a: "0 \<le> v" "v \<le> type_max T"
  show ?thesis
  proof (cases "is_signed T")
    case True
    from a have "v < 2 ^ value_bits T" by (simp add: type_max_def)
    then have "(v + 2 ^ value_bits T) mod (2 * 2 ^ value_bits T) = v + 2 ^ value_bits T"
      using a by (intro mod_pos_pos_trivial) auto
    then show ?thesis using True by (simp add: c_convert_def)
  next
    case False
    from a have "v < 2 ^ bits T" using False by (simp add: type_max_def value_bits_def)
    then show ?thesis using False a by (simp add: c_convert_def)
  qed
qed

lemma c_result_id: "0 \<le> v \<Longrightarrow> v \<le> type_max T \<Longrightarrow> c_result T v = Inr (T, v)"
  by (auto simp: c_result_def in_range_def type_min_def type_max_def value_bits_def)

lemma round_up_div:
  assumes "0 < (b::int)"
  shows "(n + (b - 1)) div b = - ((- n) div b)"
proof -
  define q where "q = n div b"
  define r where "r = n mod b"
  have n: "n = b * q + r" by (simp add: q_def r_def)
  have r: "0 \<le> r" "r < b" using assms by (simp_all add: r_def)
  have lhs: "(n + (b - 1)) div b = q + (r + (b - 1)) div b"
  proof -
    have "(b * q + (r + (b - 1))) div b = q + (r + (b - 1)) div b"
      using assms by (simp only: div_mult_self4) 
    then show ?thesis by (simp add: n add.assoc)
  qed
  have rhs: "(- n) div b = (if r = 0 then - q else - q - 1)"
    using assms by (simp add: zdiv_zminus1_eq_if q_def r_def)
  have "(r + (b - 1)) div b = (if r = 0 then 0 else 1)"
  proof (cases "r = 0")
    case True
    then show ?thesis using assms by (simp add: div_pos_pos_trivial)
  next
    case False
    then have "0 \<le> r - 1" "r - 1 < b" using r by simp_all
    then have "(r - 1) div b = 0" by (simp add: div_pos_pos_trivial)
    moreover have "r + (b - 1) = b * 1 + (r - 1)" by simp
    then have "(r + (b - 1)) div b = 1 + (r - 1) div b"
      using assms by (simp only: div_mult_self4)
    ultimately show ?thesis using False by simp
  qed
  with lhs rhs show ?thesis by simp
qed

lemma ceiling_div: "0 < (b::int) \<Longrightarrow> (n + (b - 1)) div b = \<lceil>real_of_int n / real_of_int b\<rceil>"
proof -
  assume b: "0 < b"
  have "\<lceil>real_of_int n / real_of_int b\<rceil> = - \<lfloor>real_of_int (- n) / real_of_int b\<rfloor>"
    by (simp add: ceiling_def)
  also have "\<dots> = - ((- n) div b)"
    by (simp only: floor_divide_of_int_eq)
  finally show ?thesis using round_up_div [OF b, of n] by simp
qed

lemma c_sub_one:
  assumes "0 < bs" "bs \<le> type_max T2"
  shows "c_sub (T2, bs) (c_int, 1) = Inr (usual_arithmetic_conversions T2 c_int, bs - 1)"
proof -
  let ?T = "usual_arithmetic_conversions T2 c_int"
  have m: "type_max T2 \<le> type_max ?T" by (rule type_max_usual)
  have one: "1 \<le> type_max ?T" using assms m by linarith
  have "c_convert ?T bs = bs" "c_convert ?T 1 = 1"
    using assms m one by (simp_all add: c_convert_id)
  moreover have "c_result ?T (bs - 1) = Inr (?T, bs - 1)"
    using assms m by (simp add: c_result_id)
  ultimately show ?thesis by (simp add: c_sub_def)
qed

lemma c_add_exact:
  assumes "0 \<le> a" "a \<le> type_max A" "0 \<le> b" "b \<le> type_max B"
    "a + b \<le> type_max (usual_arithmetic_conversions A B)"
  shows "c_add (A, a) (B, b) = Inr (usual_arithmetic_conversions A B, a + b)"
proof -
  let ?T = "usual_arithmetic_conversions A B"
  have "c_convert ?T a = a" "c_convert ?T b = b"
    using assms type_max_usual [of A B] type_max_usual(2) [of B A]
    by (simp_all add: c_convert_id)
  moreover have "c_result ?T (a + b) = Inr (?T, a + b)"
    using assms by (simp add: c_result_id)
  ultimately show ?thesis by (simp add: c_add_def)
qed

lemma trunc_div_nonneg: "0 \<le> a \<Longrightarrow> 0 < b \<Longrightarrow> trunc_div a b = a div b"
  by (simp add: trunc_div_def)

lemma c_div_exact:
  assumes "0 \<le> a" "a \<le> type_max A" "0 < b" "b \<le> type_max B"
  shows "c_div (A, a) (B, b) = Inr (usual_arithmetic_conversions A B, a div b)"
proof -
  let ?T = "usual_arithmetic_conversions A B"
  have c: "c_convert ?T a = a" "c_convert ?T b = b"
    using assms type_max_usual [of A B] type_max_usual(2) [of B A]
    by (simp_all add: c_convert_id)
  have "0 \<le> a div b" using assms by (simp add: pos_imp_zdiv_nonneg_iff)
  moreover have "a div b \<le> a" using assms by (cases "a = 0") (simp_all add: int_div_le_self)
  ultimately have "c_result ?T (a div b) = Inr (?T, a div b)"
    using assms type_max_usual(1) [of A B] by (intro c_result_id) linarith+
  then show ?thesis using c assms by (simp add: c_div_def trunc_div_nonneg)
qed

lemma rounded_up_quotient_exact:
  assumes "0 \<le> n" "n \<le> type_max T1" "0 < bs" "bs \<le> type_max T2"
    "n + (bs - 1) \<le> type_max (numerator_type T1 T2)"
  shows "rounded_up_quotient (T1, n) (T2, bs)
         = Inr (usual_arithmetic_conversions (numerator_type T1 T2) T2, (n + (bs - 1)) div bs)"
proof -
  let ?Ta = "usual_arithmetic_conversions T2 c_int"
  have s: "c_sub (T2, bs) (c_int, 1) = Inr (?Ta, bs - 1)"
    using assms by (simp add: c_sub_one)
  have "bs - 1 \<le> type_max ?Ta"
    using assms type_max_usual(1) [of T2 c_int] by linarith
  then have a: "c_add (T1, n) (?Ta, bs - 1) = Inr (numerator_type T1 T2, n + (bs - 1))"
    using assms unfolding numerator_type_def by (intro c_add_exact) simp_all
  have d: "c_div (numerator_type T1 T2, n + (bs - 1)) (T2, bs)
           = Inr (usual_arithmetic_conversions (numerator_type T1 T2) T2, (n + (bs - 1)) div bs)"
    using assms by (intro c_div_exact) simp_all
  show ?thesis by (simp add: rounded_up_quotient_def s a d)
qed

lemma max_active_blocks_range:
  "0 \<le> max_active_blocks dev fp b d" "max_active_blocks dev fp b d \<le> type_max size_t"
  by (simp_all add: max_active_blocks_def c_convert_def size_t_def type_max_def value_bits_def)

lemma arch_max_active_blocks_range:
  "0 \<le> arch_max_active_blocks s k b d" "arch_max_active_blocks s k b d \<le> type_max size_t"
  by (simp_all add: arch_max_active_blocks_def max_active_blocks_range)

lemma round_up_covers:
  assumes "0 < (b::int)"
  shows "n \<le> (n + (b - 1)) div b * b"
proof -
  have "(n + (b - 1)) mod b \<le> b - 1" using assms by (simp add: zle_diff1_eq)
  moreover have "(n + (b - 1)) div b * b = (n + (b - 1)) - (n + (b - 1)) mod b"
    by (simp add: minus_mod_eq_div_mult)
  ultimately show ?thesis by linarith
qed

lemma round_up_le:
  assumes "0 \<le> (n::int)" "0 < b"
  shows "0 \<le> (n + (b - 1)) div b" "(n + (b - 1)) div b \<le> n"
proof -
  show "0 \<le> (n + (b - 1)) div b" using assms by (simp add: pos_imp_zdiv_nonneg_iff)
  show "(n + (b - 1)) div b \<le> n"
  proof (cases "n = 0")
    case True
    then show ?thesis using assms by (simp add: div_pos_pos_trivial)
  next
    case False
    then have "0 \<le> (n - 1) * (b - 1)" using assms by simp
    then have "n + (b - 1) \<le> n * b" by (simp add: algebra_simps)
    then have "(n + (b - 1)) div b \<le> (n * b) div b" by (rule zdiv_mono1) (rule assms)
    then show ?thesis using assms by simp
  qed
qed


lemma thrust_min_exact:
  assumes "0 \<le> a" "a \<le> type_max T" "0 \<le> b" "b \<le> type_max T"
  shows "thrust_min T a b = min a b"
  using assms by (simp add: thrust_min_def c_convert_id min_def)

lemma type_max_larger_type:
  "type_max T1 \<le> type_max (larger_type T1 T2)"
  by (rule type_max_mono) (auto simp: larger_type_def value_bits_def)

lemma c_convert_zero: "c_convert T 0 = 0"
  by (simp add: c_convert_def)

lemma c_div_by_zero: "c_div m (T, 0) = Inl DivisionByZero"
  by (simp add: c_div_def c_convert_zero)

lemma rounded_up_quotient_zero: "\<exists>e. rounded_up_quotient n (T, 0) = Inl e"
  by (simp add: rounded_up_quotient_def c_div_by_zero split: sum.splits)

lemma c_convert_in_range: "in_range T (c_convert T v)"
proof (cases "is_signed T")
  case True
  have "0 \<le> (v + 2 ^ value_bits T) mod (2 * 2 ^ value_bits T)"
    "(v + 2 ^ value_bits T) mod (2 * 2 ^ value_bits T) < 2 * 2 ^ value_bits T"
    by simp_all
  then show ?thesis using True
    by (simp add: in_range_def c_convert_def type_min_def type_max_def)
next
  case False
  have "0 \<le> v mod 2 ^ bits T" "v mod 2 ^ bits T < 2 ^ bits T" by simp_all
  then show ?thesis using False
    by (simp add: in_range_def c_convert_def type_min_def type_max_def value_bits_def)
qed

lemma trunc_div_in_range:
  assumes "in_range T a" "0 < b"
  shows "in_range T (trunc_div a b)"
proof (cases "0 \<le> a")
  case True
  then have "trunc_div a b = a div b" using assms by (simp add: trunc_div_nonneg)
  moreover have "0 \<le> a div b" using True assms by (simp add: pos_imp_zdiv_nonneg_iff)
  moreover have "a div b \<le> a" using True assms by (cases "a = 0") (simp_all add: int_div_le_self)
  moreover have "type_min T \<le> 0" by (simp add: type_min_def)
  ultimately show ?thesis using assms(1) by (simp add: in_range_def)
next
  case False
  then have a: "a < 0" by simp
  then have t: "trunc_div a b = - ((- a) div b)" using assms by (simp add: trunc_div_def)
  have "0 \<le> (- a) div b" using a assms by (simp add: pos_imp_zdiv_nonneg_iff)
  moreover have "(- a) div b \<le> - a" using a by (simp add: int_div_le_self)
  moreover have "0 \<le> type_max T" by (simp add: type_max_def)
  ultimately show ?thesis using assms(1) a t by (simp add: in_range_def)
qed

lemma c_result_in_range: "in_range T v \<Longrightarrow> \<exists>q. c_result T v = Inr q"
  by (simp add: c_result_def)

lemma c_div_defined:
  assumes "0 < b" "b \<le> type_max B"
  shows "\<exists>q. c_div m (B, b) = Inr q"
proof -
  let ?T = "usual_arithmetic_conversions (fst m) B"
  have b: "c_convert ?T b = b"
    using assms type_max_usual(2) [of B "fst m"] by (simp add: c_convert_id)
  have "in_range ?T (trunc_div (c_convert ?T (snd m)) b)"
    using assms by (intro trunc_div_in_range c_convert_in_range)
  then have "\<exists>q. c_result ?T (trunc_div (c_convert ?T (snd m)) b) = Inr q"
    by (rule c_result_in_range)
  then show ?thesis using b assms by (simp add: c_div_def Let_def)
qed

lemma c_result_not_division_by_zero: "c_result T v \<noteq> Inl DivisionByZero"
  by (simp add: c_result_def)

lemma c_add_sub_not_division_by_zero:
  "c_add a b \<noteq> Inl DivisionByZero" "c_sub a b \<noteq> Inl DivisionByZero"
  by (simp_all add: c_add_def c_sub_def Let_def c_result_not_division_by_zero)

lemma rounded_up_quotient_not_division_by_zero:
  assumes "\<forall>m. \<exists>q. c_div m block_size = Inr q"
  shows "rounded_up_quotient n block_size \<noteq> Inl DivisionByZero"
proof (cases "c_sub block_size (c_int, 1)")
  case (Inl e)
  then show ?thesis
    using c_add_sub_not_division_by_zero(2) [of block_size "(c_int, 1)"]
    by (simp add: rounded_up_quotient_def)
next
  case d: (Inr d)
  show ?thesis
  proof (cases "c_add n d")
    case (Inl e)
    then show ?thesis
      using d c_add_sub_not_division_by_zero(1) [of n d] by (simp add: rounded_up_quotient_def)
  next
    case (Inr m)
    from assms obtain q where "c_div m block_size = Inr q" by blast
    then show ?thesis using d Inr by (simp add: rounded_up_quotient_def)
  qed
qed





lemma num_blocks_exact:
  assumes "0 \<le> n" "n \<le> type_max Size1" "0 < block_size" "block_size \<le> type_max Size2"
    and "n + (block_size - 1) \<le> type_max (numerator_type Size1 Size2)"
    and "arch_max_active_blocks s (get_launch_function sz) block_size smem
           \<le> type_max (larger_type Size1 Size2)"
  shows "closure_launcher_num_blocks_with_maximal_occupancy sz s (Size1, n) (Size2, block_size) smem
         = Inr (min (arch_max_active_blocks s (get_launch_function sz) block_size smem)
                  ((n + (block_size - 1)) div block_size))"
proof -
  let ?M = "arch_max_active_blocks s (get_launch_function sz) block_size smem"
  let ?q = "(n + (block_size - 1)) div block_size"
  let ?L = "larger_type Size1 Size2"
  have q: "0 \<le> ?q" "?q \<le> n" using assms by (simp_all add: round_up_le)
  have "?q \<le> type_max ?L"
    using q assms(2) type_max_larger_type [of Size1 Size2] by linarith
  then have m: "thrust_min ?L ?M ?q = min ?M ?q"
    using q assms(6) by (simp add: thrust_min_exact arch_max_active_blocks_range)
  have "0 \<le> min ?M ?q" "min ?M ?q \<le> type_max size_t"
    using q arch_max_active_blocks_range [of s "get_launch_function sz" block_size smem]
    by (simp_all add: min_le_iff_disj)
  then have c: "c_convert size_t (min ?M ?q) = min ?M ?q" by (rule c_convert_id)
  show ?thesis
    using assms by (simp add: closure_launcher_num_blocks_with_maximal_occupancy_def
        rounded_up_quotient_exact m c)
qed

section \<open>Properties of the occupancy calculator\<close>

lemma fold_better_block_size_mem:
  "fold (better_block_size dev fp smem) cs b \<in> insert b (set cs)"
  by (induction cs arbitrary: b) (auto simp: better_block_size_def)

lemma occupied_threads_zero: "occupied_threads dev fp smem 0 = 0"
  by (simp add: occupied_threads_def)

lemma fold_better_block_size_candidate:
  assumes "cs \<noteq> []"
  shows "fold (better_block_size dev fp smem) cs 0 \<in> set cs"
proof (cases cs)
  case Nil
  with assms show ?thesis by simp
next
  case (Cons c cs')
  have "better_block_size dev fp smem c 0 = c"
    by (simp add: better_block_size_def occupied_threads_zero)
  then have "fold (better_block_size dev fp smem) cs 0 = fold (better_block_size dev fp smem) cs' c"
    using Cons by simp
  then show ?thesis using fold_better_block_size_mem [of dev fp smem cs' c] Cons by simp
qed

lemma candidate_block_sizes_nonempty:
  assumes "0 < warp_size dev" "warp_size dev \<le> max_threads_per_block dev"
  shows "candidate_block_sizes dev \<noteq> []"
proof -
  have "1 \<le> max_threads_per_block dev div warp_size dev"
    using assms by (simp add: Suc_leI div_greater_zero_iff)
  then show ?thesis by (simp add: candidate_block_sizes_def)
qed

lemma candidate_block_sizes_bounds:
  assumes "b \<in> set (candidate_block_sizes dev)" "0 < warp_size dev"
  shows "0 < b" "b \<le> max_threads_per_block dev" "warp_size dev dvd b"
proof -
  from assms(1) have "\<exists>k. b = k * warp_size dev \<and> 1 \<le> k
      \<and> k \<le> max_threads_per_block dev div warp_size dev"
    unfolding candidate_block_sizes_def by (simp add: image_iff) force
  then obtain k where k: "b = k * warp_size dev" "1 \<le> k"
    "k \<le> max_threads_per_block dev div warp_size dev"
    by blast
  show "0 < b" using k assms(2) by simp
  show "warp_size dev dvd b" using k by simp
  have "k * warp_size dev \<le> (max_threads_per_block dev div warp_size dev) * warp_size dev"
    using k(3) by (rule mult_le_mono1)
  also have "\<dots> \<le> max_threads_per_block dev" by (simp add: div_times_less_eq_dividend)
  finally show "b \<le> max_threads_per_block dev" using k(1) by simp
qed

lemma max_blocksize_bounds:
  assumes "0 < warp_size dev" "warp_size dev \<le> max_threads_per_block dev"
    "int (max_threads_per_block dev) \<le> type_max size_t"
  shows "0 < max_blocksize_with_highest_occupancy dev fp smem"
    "max_blocksize_with_highest_occupancy dev fp smem \<le> int (max_threads_per_block dev)"
    "int (warp_size dev) dvd max_blocksize_with_highest_occupancy dev fp smem"
proof -
  let ?b = "fold (better_block_size dev fp smem) (candidate_block_sizes dev) 0"
  have "?b \<in> set (candidate_block_sizes dev)"
    using assms(1,2) by (intro fold_better_block_size_candidate candidate_block_sizes_nonempty)
  then have b: "0 < ?b" "?b \<le> max_threads_per_block dev" "warp_size dev dvd ?b"
    using assms(1) by (auto dest: candidate_block_sizes_bounds)
  then have "int ?b \<le> type_max size_t" using assms(3) by linarith
  then have c: "max_blocksize_with_highest_occupancy dev fp smem = int ?b"
    by (simp add: max_blocksize_with_highest_occupancy_def c_convert_id)
  show "0 < max_blocksize_with_highest_occupancy dev fp smem" using b c by simp
  show "max_blocksize_with_highest_occupancy dev fp smem \<le> int (max_threads_per_block dev)"
    using b c by simp
  show "int (warp_size dev) dvd max_blocksize_with_highest_occupancy dev fp smem"
    using b(3) c by (simp only: int_dvd_int_iff)
qed

section \<open>Properties of the device\<close>

lemma execute_frame:
  "heap (execute k s) = heap s" "pending (execute k s) = pending s"
  "free_bytes (execute k s) = free_bytes s"
  by (simp_all add: execute_def split: option.splits)

lemma execute_trace: "\<exists>e. trace (execute k s) = trace s @ [e] \<and> finished e k"
  by (simp add: execute_def finished_def split: option.splits)

lemma fold_execute_heap: "heap (fold execute ks s) = heap s"
  by (induction ks arbitrary: s) (simp_all add: execute_frame)

lemma fold_execute_trace:
  "\<exists>X. trace (fold execute ks s) = trace s @ X \<and> list_all2 finished X ks"
proof (induction ks arbitrary: s)
  case Nil
  show ?case by simp
next
  case (Cons k ks)
  obtain e where e: "trace (execute k s) = trace s @ [e]" "finished e k"
    using execute_trace by blast
  obtain X where X: "trace (fold execute ks (execute k s)) = trace (execute k s) @ X"
    "list_all2 finished X ks"
    using Cons.IH by blast
  have "trace (fold execute (k # ks) s) = trace s @ (e # X)" using e X by simp
  moreover have "list_all2 finished (e # X) (k # ks)" using e X by simp
  ultimately show ?case by blast
qed

lemma drain_heap: "heap (drain s) = heap s"
  by (simp add: drain_def fold_execute_heap)

lemma drain_pending: "pending (drain s) = []"
  by (simp add: drain_def)

lemma drain_trace: "\<exists>X. trace (drain s) = trace s @ X \<and> list_all2 finished X (pending s)"
  using fold_execute_trace [of "pending s" s] by (simp add: drain_def)

lemma drain_idle: "pending s = [] \<Longrightarrow> drain s = s"
  by (simp add: drain_def)

lemma free_drain: "free p (drain s) = free p s"
  by (simp add: free_def drain_idle drain_pending)

lemma free_effect:
  "trace (free p s) = trace (drain s) @ [EvFree p]" "pending (free p s) = []"
  "heap (free p s) p = None"
  by (simp_all add: free_def Let_def drain_pending drain_heap split: option.splits)

lemma malloc_success:
  assumes "malloc sz s = (Inr p, s1)"
  shows "trace s1 = trace s @ [EvAlloc p sz]" "heap s1 p = Some (sz, None)"
    "pending s1 = pending s" "arch_device_properties s1 = arch_device_properties s"
  using assms by (auto simp: malloc_def split: if_splits)

lemma device_assign_effect:
  assumes "heap s p = Some (n, old)"
  shows "trace (device_assign p f s) = trace s @ [EvCopy p f]"
    "heap (device_assign p f s) p = Some (n, Some f)"
    "pending (device_assign p f s) = pending s"
    "arch_device_properties (device_assign p f s) = arch_device_properties s"
  using assms by (simp_all add: device_assign_def)

lemma cuda_launch_effect:
  "trace (cuda_launch k s) = trace s @ [EvLaunch k]"
  "pending (cuda_launch k s)
     = pending s @ (if valid_launch_configuration (arch_device_properties s) k then [k] else [])"
  "heap (cuda_launch k s) = heap s"
  by (simp_all add: cuda_launch_def valid_launch_configuration_def)

lemma synchronize_if_enabled_ok:
  assumes "fst (synchronize_if_enabled label s) = Inr ()"
  shows "synchronize_if_enabled label s = (Inr (), if sync_enabled s then drain s else s)"
  using assms by (auto simp: synchronize_if_enabled_def Let_def split: if_splits option.splits)


section \<open>The example device evaluated\<close>

lemmas c_eval =
  c_int_def c_uint_def size_t_def value_bits_def type_max_def type_min_def in_range_def
  c_convert_def promote_def usual_arithmetic_conversions_def numerator_type_def
  larger_type_def thrust_min_def c_result_def c_add_def c_sub_def c_div_def trunc_div_def
  rounded_up_quotient_def Let_def

lemma example_candidates:
  "candidate_block_sizes example_limits =
     [32, 64, 96, 128, 160, 192, 224, 256, 288, 320, 352, 384, 416, 448, 480, 512,
      544, 576, 608, 640, 672, 704, 736, 768, 800, 832, 864, 896, 928, 960, 992, 1024]"
  by (simp add: candidate_block_sizes_def example_limits_def upt_rec)

lemma example_occupied_threads:
  "occupied_threads example_limits example_footprint 0 b =
     quota (quota (quota 32 2048 b) 65536 (32 * b)) 49152 0 * b"
  by (simp add: occupied_threads_def resident_blocks_per_mp_def example_limits_def
      example_footprint_def)

lemma example_best_block_size:
  "fold (better_block_size example_limits example_footprint 0)
     (candidate_block_sizes example_limits) 0 = 1024"
  by (simp add: example_candidates better_block_size_def example_occupied_threads quota_def)

lemma example_block_size:
  "closure_launcher_block_size_with_maximal_occupancy sz (example_device debug) 0 = 1024"
  by (simp add: closure_launcher_block_size_with_maximal_occupancy_def
      arch_max_blocksize_with_highest_occupancy_def max_blocksize_with_highest_occupancy_def
      example_device_def example_best_block_size c_convert_def size_t_def)

lemma example_fat_occupied_threads:
  "occupied_threads example_limits example_fat_footprint 0 b =
     quota (quota (quota 32 2048 b) 65536 (64 * b)) 49152 0 * b"
  by (simp add: occupied_threads_def resident_blocks_per_mp_def example_limits_def
      example_fat_footprint_def)

lemma example_fat_best_block_size:
  "fold (better_block_size example_limits example_fat_footprint 0)
     (candidate_block_sizes example_limits) 0 = 1024"
  by (simp add: example_candidates better_block_size_def example_fat_occupied_threads quota_def)

lemma example_fat_block_size:
  "closure_launcher_block_size_with_maximal_occupancy sz example_fat_device 0 = 1024"
  by (simp add: closure_launcher_block_size_with_maximal_occupancy_def
      arch_max_blocksize_with_highest_occupancy_def max_blocksize_with_highest_occupancy_def
      example_fat_device_def example_device_def example_fat_best_block_size c_convert_def
      size_t_def)

lemma example_fat_resident_blocks:
  "resident_blocks_per_mp example_limits example_fat_footprint 1024 0 = 1"
  by (simp add: resident_blocks_per_mp_def quota_def example_limits_def
      example_fat_footprint_def)

lemma example_max_active_blocks:
  "arch_max_active_blocks (example_device debug) entry 256 0 = 64"
  "arch_max_active_blocks (example_device debug) entry 1024 0 = 16"
  by (simp_all add: arch_max_active_blocks_def max_active_blocks_def resident_blocks_per_mp_def
      quota_def example_device_def example_limits_def example_footprint_def c_convert_def
      size_t_def)

lemma example_num_blocks:
  "closure_launcher_num_blocks_with_maximal_occupancy sz (example_device debug)
     (c_int, 1000000) (size_t, 256) 0 = Inr 64"
  "closure_launcher_num_blocks_with_maximal_occupancy sz (example_device debug)
     (c_uint, 1000000) (c_uint, 256) 0 = Inr 64"
  "closure_launcher_num_blocks_with_maximal_occupancy sz (example_device debug)
     (c_uint, 4294967295) (c_uint, 256) 0 = Inr 0"
  by (simp_all add: closure_launcher_num_blocks_with_maximal_occupancy_def
      example_max_active_blocks c_eval)

lemma example_configuration:
  "closure_launcher_configuration_with_maximal_occupancy sz (example_device debug) (c_int, 0)
     = Inr (0, 1024)"
  "closure_launcher_configuration_with_maximal_occupancy sz (example_device debug) (c_int, 10)
     = Inr (1, 1024)"
  "closure_launcher_configuration_with_maximal_occupancy sz (example_device debug) (c_int, 5000)
     = Inr (5, 1024)"
  by (simp_all add: closure_launcher_configuration_with_maximal_occupancy_def
      closure_launcher_num_blocks_with_maximal_occupancy_def example_block_size
      example_max_active_blocks c_eval)


section \<open>The claims\<close>

subsection \<open>C1: dispatch by closure size\<close>

text \<open>
  Claim C1. The launch path is selected by the static size of the closure: a closure of
  at most 256 bytes gets the by-value entry point and the by-value launch, a larger one
  the by-pointer entry point and the by-pointer launch. The boundary lies between 256
  and 257 bytes.
\<close>

theorem dispatch_by_closure_size:
  "(sz \<le> 256 \<longrightarrow>
      get_launch_function sz = Launch_closure_by_value
      \<and> closure_launcher_base_launch sz f num_blocks block_size smem_size s
          = closure_launcher_base_launch_by_value f num_blocks block_size smem_size s)
   \<and> (256 < sz \<longrightarrow>
      get_launch_function sz = Launch_closure_by_pointer
      \<and> closure_launcher_base_launch sz f num_blocks block_size smem_size s
          = closure_launcher_base_launch_by_pointer sz f num_blocks block_size smem_size s)"
  by (simp add: get_launch_function_def closure_launcher_base_launch_def launch_by_value_def)

text \<open>The two sides of the boundary, at 256 and at 257 bytes.\<close>

theorem dispatch_by_closure_size_witness:
  "(256::nat) \<le> 256
   \<and> get_launch_function 256 = Launch_closure_by_value
   \<and> closure_launcher_base_launch 256 (5::nat) 2 2 0 (example_device False)
       = closure_launcher_base_launch_by_value 5 2 2 0 (example_device False)
   \<and> (256::nat) < 257
   \<and> get_launch_function 257 = Launch_closure_by_pointer
   \<and> closure_launcher_base_launch 257 (5::nat) 2 2 0 (example_device False)
       = closure_launcher_base_launch_by_pointer 257 5 2 2 0 (example_device False)"
  using dispatch_by_closure_size [of 256 "5::nat" 2 2 0 "example_device False"]
    dispatch_by_closure_size [of 257 "5::nat" 2 2 0 "example_device False"]
  by simp

subsection \<open>C2: the number of blocks is the clamped ceiling\<close>

text \<open>
  Claim C2, as the code has it. Let \<open>n\<close> be a non-negative problem size and
  \<open>block_size\<close> a positive block size, both values of their types. If the sum
  \<open>n + (block_size - 1)\<close> does not exceed the maximum of the type it is computed in, and
  the maximal number of active blocks is a value of \<open>large_integer\<close>, then
  \<open>num_blocks_with_maximal_occupancy\<close> returns the minimum of the maximal number of
  active blocks for that block size and the ceiling of \<open>n / block_size\<close>. The
  result then covers \<open>n\<close>, or else it is the maximal number of active blocks.
\<close>

theorem num_blocks_with_maximal_occupancy_clamped_ceiling:
  assumes "0 \<le> n" "n \<le> type_max Size1" "0 < block_size" "block_size \<le> type_max Size2"
    and "n + (block_size - 1) \<le> type_max (numerator_type Size1 Size2)"
    and "arch_max_active_blocks s (get_launch_function sz) block_size smem
           \<le> type_max (larger_type Size1 Size2)"
  shows "\<exists>result.
           closure_launcher_num_blocks_with_maximal_occupancy sz s (Size1, n) (Size2, block_size) smem
             = Inr result
         \<and> result = min (arch_max_active_blocks s (get_launch_function sz) block_size smem)
                       \<lceil>real_of_int n / real_of_int block_size\<rceil>
         \<and> (n \<le> result * block_size
              \<or> result = arch_max_active_blocks s (get_launch_function sz) block_size smem)"
proof -
  let ?M = "arch_max_active_blocks s (get_launch_function sz) block_size smem"
  let ?q = "(n + (block_size - 1)) div block_size"
  have "closure_launcher_num_blocks_with_maximal_occupancy sz s (Size1, n) (Size2, block_size) smem
          = Inr (min ?M ?q)"
    using assms by (rule num_blocks_exact)
  moreover have "?q = \<lceil>real_of_int n / real_of_int block_size\<rceil>"
    using assms(3) by (rule ceiling_div)
  moreover have "n \<le> min ?M ?q * block_size \<or> min ?M ?q = ?M"
    using round_up_covers [OF assms(3), of n] by (auto simp: min_def)
  ultimately show ?thesis by simp
qed

text \<open>
  A million work items in blocks of 256 threads on the example device: 3907 blocks would
  cover them, 64 can be active, 64 are returned.
\<close>

theorem num_blocks_with_maximal_occupancy_clamped_ceiling_witness:
  "(0::int) \<le> 1000000 \<and> 1000000 \<le> type_max c_int
   \<and> (0::int) < 256 \<and> 256 \<le> type_max size_t
   \<and> 1000000 + (256 - 1) \<le> type_max (numerator_type c_int size_t)
   \<and> arch_max_active_blocks (example_device False) (get_launch_function 4) 256 0
       \<le> type_max (larger_type c_int size_t)
   \<and> closure_launcher_num_blocks_with_maximal_occupancy 4 (example_device False)
         (c_int, 1000000) (size_t, 256) 0 = Inr 64
   \<and> (64::int) = min (arch_max_active_blocks (example_device False) (get_launch_function 4) 256 0)
                    \<lceil>real_of_int 1000000 / real_of_int 256\<rceil>
   \<and> (64::int) = arch_max_active_blocks (example_device False) (get_launch_function 4) 256 0"
proof -
  have h: "(0::int) \<le> 1000000" "1000000 \<le> type_max c_int" "(0::int) < 256"
    "256 \<le> type_max size_t"
    "1000000 + (256 - 1) \<le> type_max (numerator_type c_int size_t)"
    "arch_max_active_blocks (example_device False) (get_launch_function 4) 256 0
       \<le> type_max (larger_type c_int size_t)"
    by (simp_all add: example_max_active_blocks c_eval)
  from num_blocks_with_maximal_occupancy_clamped_ceiling [OF h]
  show ?thesis using h by (simp add: example_max_active_blocks example_num_blocks)
qed

text \<open>
  The claim as the spec states it, for every problem size, fails where the sum wraps
  around: with 32-bit unsigned \<open>n = 4294967295\<close> and \<open>block_size = 256\<close> the sum
  is 254 and the quotient 0, so that 0 blocks are returned, although 64 blocks can be
  active and 16777216 would be needed.
\<close>

theorem num_blocks_with_maximal_occupancy_wraps_counterexample:
  "closure_launcher_num_blocks_with_maximal_occupancy 4 (example_device False)
     (c_uint, 4294967295) (c_uint, 256) 0 = Inr 0
   \<and> min (arch_max_active_blocks (example_device False) (get_launch_function 4) 256 0)
         \<lceil>real_of_int 4294967295 / real_of_int 256\<rceil> = 64
   \<and> \<not> ((4294967295::int) \<le> 0 * 256
          \<or> (0::int) = arch_max_active_blocks (example_device False) (get_launch_function 4) 256 0)"
  by (simp add: example_max_active_blocks example_num_blocks)

subsection \<open>C3: the two entry points agree\<close>

text \<open>
  Claim C3. When the buffer at \<open>p\<close> holds the closure \<open>f\<close>, the by-pointer entry
  point run on \<open>p\<close> and the by-value entry point run on \<open>f\<close> do the same: for one
  thread, for the threads of any schedule, and for a whole kernel, which leaves the
  same data and the same error state behind.
\<close>

theorem by_pointer_equivalent_to_by_value:
  assumes "heap s p = Some (n, Some f)"
  shows "launch_closure_by_pointer (closure_call s) (heap s) p t w
           = launch_closure_by_value (closure_call s) f t w
       \<and> run_threads (kernel_body s (ByPointer p)) ts w
           = run_threads (kernel_body s (ByValue f)) ts w
       \<and> world (execute (Submission (ByPointer p) g b m) s)
           = world (execute (Submission (ByValue f) g b m) s)
       \<and> latent (execute (Submission (ByPointer p) g b m) s)
           = latent (execute (Submission (ByValue f) g b m) s)"
proof -
  have thread: "launch_closure_by_pointer (closure_call s) (heap s) p t' w'
                  = launch_closure_by_value (closure_call s) f t' w'" for t' w'
    using assms by (simp add: launch_closure_by_pointer_def launch_closure_by_value_def)
  have schedule: "run_threads (kernel_body s (ByPointer p)) ts' w'
                    = run_threads (kernel_body s (ByValue f)) ts' w'" for ts' w'
  proof (induction ts' arbitrary: w')
    case Nil
    show ?case by simp
  next
    case (Cons t' ts')
    show ?case
    proof (cases "launch_closure_by_value (closure_call s) f t' w'")
      case None
      then show ?thesis by (simp add: kernel_body_def thread)
    next
      case (Some w'')
      then show ?thesis using Cons.IH [of w''] by (simp add: kernel_body_def thread)
    qed
  qed
  show ?thesis
    by (simp add: thread schedule execute_def split: option.splits)
qed

text \<open>
  A buffer holding the closure 5, and one holding the faulting closure 0, each against
  the same closure passed by value, in a kernel of two blocks of two threads.
\<close>

theorem by_pointer_equivalent_to_by_value_witness:
  "heap ((example_device False)\<lparr>heap := [1 \<mapsto> (300, Some 5), 2 \<mapsto> (300, Some 0)]\<rparr>) 1
     = Some (300, Some 5)
   \<and> world (execute (Submission (ByPointer 1) 2 2 0)
        ((example_device False)\<lparr>heap := [1 \<mapsto> (300, Some 5), 2 \<mapsto> (300, Some 0)]\<rparr>))
     = [5, 5, 5, 5]
   \<and> world (execute (Submission (ByValue 5) 2 2 0)
        ((example_device False)\<lparr>heap := [1 \<mapsto> (300, Some 5), 2 \<mapsto> (300, Some 0)]\<rparr>))
     = [5, 5, 5, 5]
   \<and> heap ((example_device False)\<lparr>heap := [1 \<mapsto> (300, Some 5), 2 \<mapsto> (300, Some 0)]\<rparr>) 2
     = Some (300, Some 0)
   \<and> latent (execute (Submission (ByPointer 2) 2 2 0)
        ((example_device False)\<lparr>heap := [1 \<mapsto> (300, Some 5), 2 \<mapsto> (300, Some 0)]\<rparr>))
     = Some DeviceExecutionFault
   \<and> latent (execute (Submission (ByValue 0) 2 2 0)
        ((example_device False)\<lparr>heap := [1 \<mapsto> (300, Some 5), 2 \<mapsto> (300, Some 0)]\<rparr>))
     = Some DeviceExecutionFault"
proof -
  let ?s = "(example_device False)\<lparr>heap := [1 \<mapsto> (300, Some 5), 2 \<mapsto> (300, Some 0)]\<rparr>"
  have h: "heap ?s 1 = Some (300, Some 5)" "heap ?s 2 = Some (300, Some 0)"
    by simp_all
  have v: "world (execute (Submission (ByValue 5) 2 2 0) ?s) = [5, 5, 5, 5]"
    "latent (execute (Submission (ByValue 0) 2 2 0) ?s) = Some DeviceExecutionFault"
    by (simp_all add: execute_def kernel_body_def launch_closure_by_value_def grid_threads_def
        example_call_def example_device_def upt_rec)
  show ?thesis
    using h v
      by_pointer_equivalent_to_by_value [OF h(1), of "(0, 0)" "[]" "[]" 2 2 0]
      by_pointer_equivalent_to_by_value [OF h(2), of "(0, 0)" "[]" "[]" 2 2 0]
    by simp
qed

subsection \<open>C4: a failed allocation aborts the launch\<close>

text \<open>
  Claim C4. When the closure is launched by pointer and the allocation of its buffer
  fails with \<open>OutOfDeviceMemory\<close>, every form of \<open>launch_closure\<close> leaves the device
  as it was: nothing is submitted to the queue, nothing has happened on the device.
  The launch ends with that error (for \<open>launch_closure(f, n)\<close>: whenever a
  configuration could be computed).
\<close>

theorem allocation_failure_aborts_launch:
  assumes "\<not> launch_by_value sz"
    and "fst (malloc sz s) = Inl OutOfDeviceMemory"
  shows "launch_closure sz f num_blocks block_size smem_size s = (Inl OutOfDeviceMemory, s)
       \<and> launch_closure_3 sz f num_blocks block_size s = (Inl OutOfDeviceMemory, s)
       \<and> snd (launch_closure_n sz f n s) = s
       \<and> (\<forall>config. closure_launcher_configuration_with_maximal_occupancy sz s n = Inr config
            \<longrightarrow> fst (launch_closure_n sz f n s) = Inl OutOfDeviceMemory)"
proof -
  have m: "malloc sz s = (Inl OutOfDeviceMemory, s)"
    using assms(2) by (auto simp: malloc_def split: if_splits)
  have b: "closure_launcher_base_launch sz f nb bs sm s = (Inl OutOfDeviceMemory, s)" for nb bs sm
    using assms(1) m
    by (simp add: closure_launcher_base_launch_def closure_launcher_base_launch_by_pointer_def)
  show ?thesis
    by (simp add: launch_closure_def launch_closure_3_def launch_closure_n_def
        closure_launcher_launch_def closure_launcher_launch_n_def b split: sum.splits)
qed

text \<open>A closure of 3000 bytes on the example device, which has 1000 bytes free.\<close>

theorem allocation_failure_aborts_launch_witness:
  "\<not> launch_by_value 3000
   \<and> fst (malloc 3000 (example_device False)) = Inl OutOfDeviceMemory
   \<and> launch_closure 3000 (5::nat) 2 2 0 (example_device False)
       = (Inl OutOfDeviceMemory, example_device False)
   \<and> launch_closure_3 3000 (5::nat) 2 2 (example_device False)
       = (Inl OutOfDeviceMemory, example_device False)
   \<and> closure_launcher_configuration_with_maximal_occupancy 3000 (example_device False) (c_int, 10)
       = Inr (1, 1024)
   \<and> launch_closure_n 3000 (5::nat) (c_int, 10) (example_device False)
       = (Inl OutOfDeviceMemory, example_device False)
   \<and> pending (example_device False) = ([] :: nat submission list)
   \<and> trace (example_device False) = ([] :: nat event list)"
proof -
  have h: "\<not> launch_by_value 3000"
    "fst (malloc 3000 (example_device False)) = Inl OutOfDeviceMemory"
    by (simp_all add: launch_by_value_def malloc_def example_device_def)
  have e: "pending (example_device False) = ([] :: nat submission list)"
    "trace (example_device False) = ([] :: nat event list)"
    by (simp_all add: example_device_def)
  from allocation_failure_aborts_launch [OF h, of "5::nat" 2 2 0 "(c_int, 10)"]
  show ?thesis
    using h e by (simp add: example_configuration prod_eq_iff)
qed

subsection \<open>C5: the invariant of a derived launch configuration\<close>

text \<open>
  Claim C5, as the code has it. On a device whose warp width is positive and not larger
  than its maximal number of threads per block, let \<open>n \<ge> 1\<close> be a problem size such
  that \<open>n + (block_size - 1)\<close> does not exceed the maximum of the type it is computed
  in, and let at least one block be able to be active (a number that is a value of
  \<open>large_integer\<close>). Then \<open>configuration_with_maximal_occupancy(n)\<close> returns a
  block size that is positive and at most the device's maximal number of threads per
  block, and a positive number of blocks; the blocks cover \<open>n\<close> whenever the clamp
  to the maximal number of active blocks does not apply.
\<close>

theorem configuration_with_maximal_occupancy_invariant:
  assumes "0 < warp_size (arch_device_properties s)"
    and "warp_size (arch_device_properties s) \<le> max_threads_per_block (arch_device_properties s)"
    and "int (max_threads_per_block (arch_device_properties s)) \<le> type_max size_t"
    and "1 \<le> n" and "n \<le> type_max Size"
    and "n + (closure_launcher_block_size_with_maximal_occupancy sz s 0 - 1)
           \<le> type_max (numerator_type Size size_t)"
    and "1 \<le> arch_max_active_blocks s (get_launch_function sz)
                (closure_launcher_block_size_with_maximal_occupancy sz s 0) 0"
    and "arch_max_active_blocks s (get_launch_function sz)
           (closure_launcher_block_size_with_maximal_occupancy sz s 0) 0
           \<le> type_max (larger_type Size size_t)"
  shows "\<exists>num_blocks block_size.
           closure_launcher_configuration_with_maximal_occupancy sz s (Size, n)
             = Inr (num_blocks, block_size)
         \<and> 0 < block_size
         \<and> block_size \<le> int (max_threads_per_block (arch_device_properties s))
         \<and> 0 < num_blocks
         \<and> (\<lceil>real_of_int n / real_of_int block_size\<rceil>
               \<le> arch_max_active_blocks s (get_launch_function sz) block_size 0
             \<longrightarrow> n \<le> num_blocks * block_size)"
proof -
  let ?bs = "closure_launcher_block_size_with_maximal_occupancy sz s 0"
  let ?M = "arch_max_active_blocks s (get_launch_function sz) ?bs 0"
  let ?q = "(n + (?bs - 1)) div ?bs"
  have bs: "0 < ?bs" "?bs \<le> int (max_threads_per_block (arch_device_properties s))"
    unfolding closure_launcher_block_size_with_maximal_occupancy_def
      arch_max_blocksize_with_highest_occupancy_def
    using max_blocksize_bounds [OF assms(1,2,3)] by simp_all
  then have bs_max: "?bs \<le> type_max size_t" using assms(3) by linarith
  have nb: "closure_launcher_num_blocks_with_maximal_occupancy sz s (Size, n) (size_t, ?bs) 0
            = Inr (min ?M ?q)"
    using assms(4,5,6,8) bs(1) bs_max by (intro num_blocks_exact) simp_all
  have q: "?q = \<lceil>real_of_int n / real_of_int ?bs\<rceil>" using bs(1) by (rule ceiling_div)
  have cover: "n \<le> ?q * ?bs" using bs(1) by (rule round_up_covers)
  have "1 \<le> ?q"
  proof -
    have "?bs \<le> n + (?bs - 1)" using assms(4) by simp
    then have "?bs div ?bs \<le> ?q" by (rule zdiv_mono1) (rule bs(1))
    then show ?thesis using bs(1) by simp
  qed
  then have pos: "0 < min ?M ?q" using assms(7) by simp
  have "\<lceil>real_of_int n / real_of_int ?bs\<rceil> \<le> ?M \<longrightarrow> n \<le> min ?M ?q * ?bs"
    using cover q by (simp add: min_def)
  then show ?thesis
    using nb bs pos
    by (simp add: closure_launcher_configuration_with_maximal_occupancy_def Let_def)
qed

text \<open>
  5000 work items on the example device: blocks of 1024 threads, 5 blocks (16 could be
  active), 5120 threads.
\<close>

theorem configuration_with_maximal_occupancy_invariant_witness:
  "0 < warp_size (arch_device_properties (example_device False))
   \<and> warp_size (arch_device_properties (example_device False))
       \<le> max_threads_per_block (arch_device_properties (example_device False))
   \<and> int (max_threads_per_block (arch_device_properties (example_device False)))
       \<le> type_max size_t
   \<and> (1::int) \<le> 5000 \<and> 5000 \<le> type_max c_int
   \<and> 5000 + (closure_launcher_block_size_with_maximal_occupancy 4 (example_device False) 0 - 1)
       \<le> type_max (numerator_type c_int size_t)
   \<and> 1 \<le> arch_max_active_blocks (example_device False) (get_launch_function 4)
             (closure_launcher_block_size_with_maximal_occupancy 4 (example_device False) 0) 0
   \<and> arch_max_active_blocks (example_device False) (get_launch_function 4)
         (closure_launcher_block_size_with_maximal_occupancy 4 (example_device False) 0) 0
       \<le> type_max (larger_type c_int size_t)
   \<and> closure_launcher_configuration_with_maximal_occupancy 4 (example_device False)
         (c_int, 5000) = Inr (5, 1024)
   \<and> \<lceil>real_of_int 5000 / real_of_int 1024\<rceil>
       \<le> arch_max_active_blocks (example_device False) (get_launch_function 4) 1024 0
   \<and> (5000::int) \<le> 5 * 1024"
proof -
  have h: "0 < warp_size (arch_device_properties (example_device False))"
    "warp_size (arch_device_properties (example_device False))
       \<le> max_threads_per_block (arch_device_properties (example_device False))"
    "int (max_threads_per_block (arch_device_properties (example_device False)))
       \<le> type_max size_t"
    "(1::int) \<le> 5000" "5000 \<le> type_max c_int"
    "5000 + (closure_launcher_block_size_with_maximal_occupancy 4 (example_device False) 0 - 1)
       \<le> type_max (numerator_type c_int size_t)"
    "1 \<le> arch_max_active_blocks (example_device False) (get_launch_function 4)
             (closure_launcher_block_size_with_maximal_occupancy 4 (example_device False) 0) 0"
    "arch_max_active_blocks (example_device False) (get_launch_function 4)
         (closure_launcher_block_size_with_maximal_occupancy 4 (example_device False) 0) 0
       \<le> type_max (larger_type c_int size_t)"
    by (simp_all add: example_block_size example_max_active_blocks c_eval)
      (simp_all add: example_device_def example_limits_def)
  from configuration_with_maximal_occupancy_invariant [OF h]
  show ?thesis
    using h by (simp add: example_configuration example_max_active_blocks)
qed

text \<open>
  The claim as the spec states it, with a positive number of blocks for every problem
  size, fails for \<open>n = 0\<close>: the configuration is 0 blocks of 1024 threads.
\<close>

theorem configuration_with_maximal_occupancy_empty_counterexample:
  "closure_launcher_configuration_with_maximal_occupancy 4 (example_device False) (c_int, 0)
     = Inr (0, 1024)
   \<and> \<not> (0::int) < fst (0, 1024)"
  by (simp add: example_configuration)

subsection \<open>C6: the width of the size computations\<close>




subsection \<open>C7: the effects of a by-pointer launch, in order\<close>

text \<open>
  The paths on which the launch returns. When the allocation succeeds and the
  diagnostic hook does not raise, the effects on the device are, in this order: one
  allocation of \<open>sizeof(NullaryFunction)\<close> bytes; one copy of the closure into that
  buffer; the launch of the kernel on that buffer; the end of every kernel in the
  queue, among them the one just launched if its geometry was accepted; one release of
  that buffer. When the last kernel has ended the buffer still holds the closure;
  after the launch the queue is empty and the buffer is gone.
\<close>

lemma by_pointer_launch_effect_sequence:
  assumes "malloc sz s = (Inr p, s1)"
    and "k = Submission (ByPointer p) (nat (c_convert c_uint num_blocks))
               (nat (c_convert c_uint block_size)) (nat (c_convert c_uint smem_size))"
    and "s3 = cuda_launch k (device_assign p f s1)"
    and "fst (synchronize_if_enabled ''launch_closure_by_pointer'' s3) = Inr ()"
  shows "\<exists>X s'.
           closure_launcher_base_launch_by_pointer sz f num_blocks block_size smem_size s
             = (Inr (), s')
         \<and> trace s' = trace s @ [EvAlloc p sz, EvCopy p f, EvLaunch k] @ X @ [EvFree p]
         \<and> list_all2 finished X (pending s3)
         \<and> pending s3 = pending s
              @ (if valid_launch_configuration (arch_device_properties s) k then [k] else [])
         \<and> heap (drain s3) p = Some (sz, Some f)
         \<and> pending s' = []
         \<and> heap s' p = None"
proof -
  let ?s2 = "device_assign p f s1"
  have res: "closure_launcher_base_launch_by_pointer sz f num_blocks block_size smem_size s
             = (Inr (), free p s3)"
    using assms(1) synchronize_if_enabled_ok [OF assms(4)]
    by (simp add: closure_launcher_base_launch_by_pointer_def Let_def assms(2,3) [symmetric]
        free_drain)
  have t3: "trace s3 = trace s @ [EvAlloc p sz, EvCopy p f, EvLaunch k]"
    using malloc_success(1,2) [OF assms(1)]
    by (simp add: assms(3) cuda_launch_effect device_assign_effect)
  obtain X where X: "trace (drain s3) = trace s3 @ X" "list_all2 finished X (pending s3)"
    using drain_trace by blast
  have p3: "pending s3 = pending s
              @ (if valid_launch_configuration (arch_device_properties s) k then [k] else [])"
    using malloc_success [OF assms(1)]
    by (simp add: assms(3) cuda_launch_effect device_assign_effect)
  have h3: "heap (drain s3) p = Some (sz, Some f)"
    using malloc_success(2) [OF assms(1)]
    by (simp add: assms(3) drain_heap cuda_launch_effect device_assign_effect)
  have "trace (free p s3) = trace s @ [EvAlloc p sz, EvCopy p f, EvLaunch k] @ X @ [EvFree p]"
    using t3 X(1) by (simp add: free_effect)
  then show ?thesis using res X(2) p3 h3 free_effect(2,3) [of p s3] by blast
qed

text \<open>
  The closure 5 in 300 bytes, two blocks of two threads, the diagnostic hook disabled:
  the kernel ends when the release waits for it.
\<close>

lemma by_pointer_launch_effect_sequence_example:
  "malloc 300 (example_device False) = (Inr 1, snd (malloc 300 (example_device False)))
   \<and> Submission (ByPointer 1) 2 2 0
       = Submission (ByPointer 1) (nat (c_convert c_uint 2)) (nat (c_convert c_uint 2))
           (nat (c_convert c_uint 0))
   \<and> fst (synchronize_if_enabled ''launch_closure_by_pointer''
            (cuda_launch (Submission (ByPointer 1) 2 2 0)
               (device_assign 1 (5::nat) (snd (malloc 300 (example_device False)))))) = Inr ()
   \<and> fst (closure_launcher_base_launch_by_pointer 300 (5::nat) 2 2 0 (example_device False))
       = Inr ()
   \<and> trace (snd (closure_launcher_base_launch_by_pointer 300 (5::nat) 2 2 0
                   (example_device False)))
       = [EvAlloc 1 300, EvCopy 1 5, EvLaunch (Submission (ByPointer 1) 2 2 0),
          EvComplete (Submission (ByPointer 1) 2 2 0), EvFree 1]"
proof -
  let ?k = "Submission (ByPointer 1) 2 2 0 :: nat submission"
  let ?s1 = "snd (malloc 300 (example_device False))"
  let ?s3 = "cuda_launch ?k (device_assign 1 (5::nat) ?s1)"
  have h1: "malloc 300 (example_device False) = (Inr 1, ?s1)"
    by (simp add: malloc_def example_device_def)
  have h2: "?k = Submission (ByPointer 1) (nat (c_convert c_uint 2)) (nat (c_convert c_uint 2))
                   (nat (c_convert c_uint 0))"
    by (simp add: c_eval)
  have h3: "?s3 = cuda_launch ?k (device_assign 1 5 ?s1)" by (rule refl)
  have h4: "fst (synchronize_if_enabled ''launch_closure_by_pointer'' ?s3) = Inr ()"
    by (simp add: synchronize_if_enabled_def cuda_launch_def device_assign_def malloc_def
        example_device_def)
  have t: "trace (snd (closure_launcher_base_launch_by_pointer 300 (5::nat) 2 2 0
                   (example_device False)))
       = [EvAlloc 1 300, EvCopy 1 5, EvLaunch ?k, EvComplete ?k, EvFree 1]"
    by (simp add: closure_launcher_base_launch_by_pointer_def malloc_def
        device_assign_def cuda_launch_def valid_launch_configuration_def
        synchronize_if_enabled_def free_def drain_def execute_def kernel_body_def
        launch_closure_by_pointer_def grid_threads_def example_call_def example_device_def
        example_limits_def c_convert_def c_uint_def Let_def upt_rec)
  from by_pointer_launch_effect_sequence [OF h1 h2 h3 h4]
  obtain X s' where "closure_launcher_base_launch_by_pointer 300 (5::nat) 2 2 0
                       (example_device False) = (Inr (), s')"
    by blast
  then show ?thesis using h1 h2 h4 t by simp
qed

text \<open>
  Claim C7. Every by-pointer launch whose allocation succeeds allocates one buffer of
  \<open>sizeof(NullaryFunction)\<close> bytes, copies the closure into it once, submits the
  kernel, and then frees that same buffer once. The code pairs the allocation with the
  release (\<^verbatim>\<open>// free device memory\<close>) and releases on the paths above, but not when
  the diagnostic hook raises: with the hook enabled and a closure that faults on the
  device, the launch of a 300-byte closure ends with the hook's error after allocation,
  copy, launch and the kernel's fault. The log has no release, the buffer is still
  allocated and still holds the closure, and its 300 bytes are not given back.
\<close>

theorem by_pointer_launch_leaks_buffer_when_hook_raises:
  "fst (malloc 300 (example_device True)) = Inr 1
   \<and> fst (launch_closure 300 (0::nat) 1 1 0 (example_device True))
       = Inl (SynchronizeError ''launch_closure_by_pointer'' DeviceExecutionFault)
   \<and> trace (snd (launch_closure 300 (0::nat) 1 1 0 (example_device True)))
       = [EvAlloc 1 300, EvCopy 1 0, EvLaunch (Submission (ByPointer 1) 1 1 0),
          EvFault (Submission (ByPointer 1) 1 1 0)]
   \<and> heap (snd (launch_closure 300 (0::nat) 1 1 0 (example_device True))) 1
       = Some (300, Some 0)
   \<and> free_bytes (example_device True) = 1000
   \<and> free_bytes (snd (launch_closure 300 (0::nat) 1 1 0 (example_device True))) = 700"
  by (simp add: launch_closure_def closure_launcher_launch_def closure_launcher_base_launch_def
      launch_by_value_def closure_launcher_base_launch_by_pointer_def malloc_def
      device_assign_def cuda_launch_def valid_launch_configuration_def
      synchronize_if_enabled_def drain_def execute_def kernel_body_def
      launch_closure_by_pointer_def grid_threads_def example_call_def example_device_def
      example_limits_def c_convert_def c_uint_def Let_def upt_rec)

subsection \<open>C8: the configuration is a function of the problem size and the attributes\<close>

text \<open>
  Claim C8. \<open>configuration_with_maximal_occupancy(n)\<close> depends on nothing but
  \<open>n\<close>, the device properties and the function attributes of the launcher's entry
  point: on two device states that agree on these, whatever else differs, it returns
  the same pair. So two calls with the same \<open>n\<close> and unchanged device and kernel
  state return identical results.
\<close>

theorem configuration_with_maximal_occupancy_deterministic:
  assumes "arch_device_properties s = arch_device_properties s'"
    and "arch_function_attributes s (get_launch_function sz)
         = arch_function_attributes s' (get_launch_function sz)"
  shows "closure_launcher_configuration_with_maximal_occupancy sz s n
         = closure_launcher_configuration_with_maximal_occupancy sz s' n"
  using assms
  by (simp add: closure_launcher_configuration_with_maximal_occupancy_def
      closure_launcher_block_size_with_maximal_occupancy_def
      closure_launcher_num_blocks_with_maximal_occupancy_def
      arch_max_blocksize_with_highest_occupancy_def arch_max_active_blocks_def)

text \<open>
  The second call sees a device that has launched a kernel in between: memory, queue
  and log have changed, the answer has not.
\<close>

theorem configuration_with_maximal_occupancy_deterministic_witness:
  "arch_device_properties (example_device False)
     = arch_device_properties (snd (launch_closure 300 (5::nat) 2 2 0 (example_device False)))
   \<and> arch_function_attributes (example_device False) (get_launch_function 300)
     = arch_function_attributes (snd (launch_closure 300 (5::nat) 2 2 0 (example_device False)))
         (get_launch_function 300)
   \<and> trace (example_device False)
     \<noteq> trace (snd (launch_closure 300 (5::nat) 2 2 0 (example_device False)))
   \<and> closure_launcher_configuration_with_maximal_occupancy 300 (example_device False)
         (c_int, 5000)
     = closure_launcher_configuration_with_maximal_occupancy 300
         (snd (launch_closure 300 (5::nat) 2 2 0 (example_device False))) (c_int, 5000)"
proof -
  have l: "snd (launch_closure 300 (5::nat) 2 2 0 (example_device False))
           = (example_device False)
               \<lparr>next_addr := 2, world := [5, 5, 5, 5],
                trace := [EvAlloc 1 300, EvCopy 1 5, EvLaunch (Submission (ByPointer 1) 2 2 0),
                          EvComplete (Submission (ByPointer 1) 2 2 0), EvFree 1]\<rparr>"
    by (simp add: launch_closure_def closure_launcher_launch_def closure_launcher_base_launch_def
        launch_by_value_def closure_launcher_base_launch_by_pointer_def malloc_def
        device_assign_def cuda_launch_def valid_launch_configuration_def
        synchronize_if_enabled_def free_def drain_def execute_def kernel_body_def
        launch_closure_by_pointer_def grid_threads_def example_call_def example_device_def
        example_limits_def c_convert_def c_uint_def Let_def upt_rec)
  have h: "arch_device_properties (example_device False)
             = arch_device_properties (snd (launch_closure 300 (5::nat) 2 2 0 (example_device False)))"
    "arch_function_attributes (example_device False) (get_launch_function 300)
     = arch_function_attributes (snd (launch_closure 300 (5::nat) 2 2 0 (example_device False)))
         (get_launch_function 300)"
    by (simp_all add: l)
  have t: "trace (example_device False)
     \<noteq> trace (snd (launch_closure 300 (5::nat) 2 2 0 (example_device False)))"
    by (simp add: l) (simp add: example_device_def)
  from configuration_with_maximal_occupancy_deterministic [OF h, of "(c_int, 5000)"]
  show ?thesis using h t by simp
qed

subsection \<open>C9: the block size of maximal occupancy\<close>

text \<open>
  Claim C9. On a device whose warp width is positive and not larger than its maximal
  number of threads per block (a number that fits \<open>size_t\<close>), for every closure
  size, every kernel footprint and every amount of dynamic shared memory per thread,
  \<open>block_size_with_maximal_occupancy\<close> returns a positive multiple of the warp width
  that does not exceed the device's maximal number of threads per block. It is never
  zero, whatever the kernel's resource usage lets reside.
\<close>

theorem block_size_with_maximal_occupancy_valid:
  assumes "0 < warp_size (arch_device_properties s)"
    and "warp_size (arch_device_properties s) \<le> max_threads_per_block (arch_device_properties s)"
    and "int (max_threads_per_block (arch_device_properties s)) \<le> type_max size_t"
  shows "0 < closure_launcher_block_size_with_maximal_occupancy sz s smem
       \<and> closure_launcher_block_size_with_maximal_occupancy sz s smem
           \<le> int (max_threads_per_block (arch_device_properties s))
       \<and> int (warp_size (arch_device_properties s))
           dvd closure_launcher_block_size_with_maximal_occupancy sz s smem"
  unfolding closure_launcher_block_size_with_maximal_occupancy_def
    arch_max_blocksize_with_highest_occupancy_def
  using max_blocksize_bounds [OF assms] by simp

text \<open>
  A kernel of which only one block can reside on a multiprocessor (64 registers per
  thread) gets blocks of 1024 threads on the example device.
\<close>

theorem block_size_with_maximal_occupancy_valid_witness:
  "0 < warp_size (arch_device_properties example_fat_device)
   \<and> warp_size (arch_device_properties example_fat_device)
       \<le> max_threads_per_block (arch_device_properties example_fat_device)
   \<and> int (max_threads_per_block (arch_device_properties example_fat_device))
       \<le> type_max size_t
   \<and> closure_launcher_block_size_with_maximal_occupancy 300 example_fat_device 0 = 1024
   \<and> resident_blocks_per_mp example_limits example_fat_footprint 1024 0 = 1
   \<and> (0::int) < 1024
   \<and> (1024::int) \<le> int (max_threads_per_block (arch_device_properties example_fat_device))
   \<and> int (warp_size (arch_device_properties example_fat_device)) dvd (1024::int)"
  using block_size_with_maximal_occupancy_valid [of example_fat_device 300 0]
  by (simp add: example_fat_block_size example_fat_resident_blocks)
    (simp add: example_fat_device_def example_device_def example_limits_def c_eval)

subsection \<open>C10: the division needs a positive block size\<close>

text \<open>
  Claim C10. \<open>num_blocks_with_maximal_occupancy\<close> divides by \<open>block_size\<close>
  without a guard. For a positive block size (a value of its type) the subtraction
  \<open>block_size - 1\<close> is defined and the division is defined for every numerator, so
  the function never divides by zero; for \<open>block_size = 0\<close> the function has no
  defined result.
\<close>

theorem num_blocks_division_defined_for_positive_block_size:
  "(0 < block_size \<and> block_size \<le> type_max Size2 \<longrightarrow>
      c_sub (Size2, block_size) (c_int, 1)
        = Inr (usual_arithmetic_conversions Size2 c_int, block_size - 1)
      \<and> (\<forall>m. \<exists>q. c_div m (Size2, block_size) = Inr q)
      \<and> closure_launcher_num_blocks_with_maximal_occupancy sz s n (Size2, block_size) smem
          \<noteq> Inl DivisionByZero)
   \<and> (block_size = 0 \<longrightarrow>
      (\<exists>e. closure_launcher_num_blocks_with_maximal_occupancy sz s n (Size2, block_size) smem
            = Inl e))"
proof (intro conjI impI)
  assume a: "0 < block_size \<and> block_size \<le> type_max Size2"
  then show "c_sub (Size2, block_size) (c_int, 1)
        = Inr (usual_arithmetic_conversions Size2 c_int, block_size - 1)"
    by (simp add: c_sub_one)
  show d: "\<forall>m. \<exists>q. c_div m (Size2, block_size) = Inr q"
    using a c_div_defined by blast
  have "rounded_up_quotient n (Size2, block_size) \<noteq> Inl DivisionByZero"
    using d by (rule rounded_up_quotient_not_division_by_zero)
  then show "closure_launcher_num_blocks_with_maximal_occupancy sz s n (Size2, block_size) smem
          \<noteq> Inl DivisionByZero"
    by (auto simp: closure_launcher_num_blocks_with_maximal_occupancy_def Let_def
        split: sum.splits)
next
  assume "block_size = 0"
  then show "\<exists>e. closure_launcher_num_blocks_with_maximal_occupancy sz s n (Size2, block_size) smem
            = Inl e"
    using rounded_up_quotient_zero [of n Size2]
    by (auto simp: closure_launcher_num_blocks_with_maximal_occupancy_def Let_def)
qed

text \<open>Blocks of 256 threads are divided by; blocks of 0 threads give a division by zero.\<close>

theorem num_blocks_division_defined_for_positive_block_size_witness:
  "(0::int) < 256 \<and> 256 \<le> type_max size_t
   \<and> c_sub (size_t, 256) (c_int, 1) = Inr (size_t, 255)
   \<and> (\<forall>m. \<exists>q. c_div m (size_t, 256) = Inr q)
   \<and> closure_launcher_num_blocks_with_maximal_occupancy 4 (example_device False)
         (c_int, 1000) (size_t, 256) 0 \<noteq> Inl DivisionByZero
   \<and> closure_launcher_num_blocks_with_maximal_occupancy 4 (example_device False)
         (c_int, 1000) (size_t, 0) 0 = Inl DivisionByZero"
proof -
  have h: "(0::int) < 256 \<and> 256 \<le> type_max size_t" by (simp add: c_eval)
  have z: "closure_launcher_num_blocks_with_maximal_occupancy 4 (example_device False)
         (c_int, 1000) (size_t, 0) 0 = Inl DivisionByZero"
    by (simp add: closure_launcher_num_blocks_with_maximal_occupancy_def c_eval)
  have "c_sub (size_t, 256) (c_int, 1) = Inr (size_t, 255)" by (simp add: c_eval)
  then show ?thesis
    using h z
      num_blocks_division_defined_for_positive_block_size
        [of 256 size_t 4 "example_device False" "(c_int, 1000)" 0]
      num_blocks_division_defined_for_positive_block_size
        [of 0 size_t 4 "example_device False" "(c_int, 1000)" 0]
    by simp
qed

end
